theory Spec2Isabelle
  imports Complex_Main "HOL-Library.Word" "HOL-Library.Sublist"
begin

section \<open>JavaScript values\<close>

text \<open>
  A JavaScript string is a sequence of 16-bit code units.  Source literals are written as
  Isabelle strings and converted with \<open>js\<close>; every literal of the sources is ASCII but the
  copyright sign of the footers, which is written as its code unit.
\<close>

type_synonym jsstring = "16 word list"

definition js :: "string \<Rightarrow> jsstring" where
  "js s = map of_char s"

text \<open>
  The event handlers the components install.  A handler is kept as the state update it
  performs: \<open>SetIsOpen b\<close> is \<^verbatim>\<open>() => setIsOpen(b)\<close>, \<open>OnOpenChange\<close> is the setter
  \<^verbatim>\<open>setIsOpen\<close> itself handed to the sheet, \<open>SetSearchQueryToTargetValue\<close> is
  \<^verbatim>\<open>(e) => setSearchQuery(e.target.value)\<close>, \<open>Previous\<close> and \<open>Next\<close> are the two
  carousel closures, \<open>SetCurrentIndex i\<close> is \<^verbatim>\<open>() => setCurrentIndex(i)\<close> and
  \<open>SetIsYearly b\<close> is \<^verbatim>\<open>() => setIsYearly(b)\<close>.
\<close>

datatype action =
    SetIsOpen bool
  | OnOpenChange
  | SetSearchQueryToTargetValue
  | Previous
  | Next
  | SetCurrentIndex nat
  | SetIsYearly bool

text \<open>
  Numbers are the exact reals with the two infinities and NaN; the rounding of doubles is
  not modelled (every number the components compute is a small integer).
\<close>

datatype number = Fin real | PosInf | NegInf | NaN

datatype jsval =
    VUndefined
  | VBool bool
  | VNum number
  | VStr jsstring
  | VArr "jsval list"
  | VObj "(string \<times> jsval) list"
  | VHandler action

abbreviation lit :: "string \<Rightarrow> jsval" where
  "lit s \<equiv> VStr (js s)"

abbreviation numv :: "real \<Rightarrow> jsval" where
  "numv r \<equiv> VNum (Fin r)"

text \<open>Reading a property of an object literal; \<open>None\<close> when the key is absent or the
  receiver is no object.\<close>

fun field_of :: "jsval \<Rightarrow> string \<Rightarrow> jsval option" where
  "field_of (VObj kvs) k = map_of kvs k"
| "field_of _ k = None"

text \<open>\<^verbatim>\<open>o.k\<close> for an object literal \<open>o\<close>: an absent key reads as \<open>undefined\<close>.\<close>

definition get :: "jsval \<Rightarrow> string \<Rightarrow> jsval" where
  "get obj k = (case field_of obj k of Some v \<Rightarrow> v | None \<Rightarrow> VUndefined)"

section \<open>Number operations\<close>

text \<open>\<^verbatim>\<open>a < b\<close> on numbers: false whenever an operand is NaN.\<close>

fun num_less :: "number \<Rightarrow> number \<Rightarrow> bool" where
  "num_less (Fin a) (Fin b) = (a < b)"
| "num_less (Fin a) PosInf = True"
| "num_less NegInf (Fin b) = True"
| "num_less NegInf PosInf = True"
| "num_less a b = False"

text \<open>\<^verbatim>\<open>a + b\<close>, \<^verbatim>\<open>a - b\<close> and the remainder \<^verbatim>\<open>a % b\<close>, whose sign is the sign of the
  dividend and which is NaN for a zero divisor.\<close>

fun num_add :: "number \<Rightarrow> number \<Rightarrow> number" where
  "num_add (Fin a) (Fin b) = Fin (a + b)"
| "num_add NaN b = NaN"
| "num_add a NaN = NaN"
| "num_add PosInf NegInf = NaN"
| "num_add NegInf PosInf = NaN"
| "num_add PosInf b = PosInf"
| "num_add NegInf b = NegInf"
| "num_add (Fin a) b = b"

fun num_sub :: "number \<Rightarrow> number \<Rightarrow> number" where
  "num_sub (Fin a) (Fin b) = Fin (a - b)"
| "num_sub NaN b = NaN"
| "num_sub a NaN = NaN"
| "num_sub PosInf PosInf = NaN"
| "num_sub NegInf NegInf = NaN"
| "num_sub PosInf b = PosInf"
| "num_sub NegInf b = NegInf"
| "num_sub (Fin a) PosInf = NegInf"
| "num_sub (Fin a) NegInf = PosInf"

definition trunc :: "real \<Rightarrow> int" where
  "trunc x = (if x < 0 then \<lceil>x\<rceil> else \<lfloor>x\<rfloor>)"

fun num_rem :: "number \<Rightarrow> number \<Rightarrow> number" where
  "num_rem (Fin a) (Fin b) = (if b = 0 then NaN else Fin (a - b * of_int (trunc (a / b))))"
| "num_rem (Fin a) PosInf = Fin a"
| "num_rem (Fin a) NegInf = Fin a"
| "num_rem a b = NaN"

text \<open>\<^verbatim>\<open>xs[k]\<close> for a number \<open>k\<close>: the element when \<open>k\<close> is an index of the array, and
  \<open>undefined\<close> (here \<open>None\<close>) otherwise.\<close>

definition at_index :: "'a list \<Rightarrow> number \<Rightarrow> 'a option" where
  "at_index xs k =
     (case k of
        Fin r \<Rightarrow>
          if r = of_int \<lfloor>r\<rfloor> \<and> 0 \<le> r \<and> r < real (length xs) then Some (xs ! nat \<lfloor>r\<rfloor>)
          else None
      | _ \<Rightarrow> None)"

text \<open>\<^verbatim>\<open>Math.ceil(n / 2)\<close> for an array length \<open>n\<close>.\<close>

definition ceil_half :: "nat \<Rightarrow> nat" where
  "ceil_half n = nat \<lceil>real n / 2\<rceil>"

text \<open>The errors a render can throw: a reference to an identifier that the module does not
  bind, and a property read on \<open>undefined\<close> (the property is named).\<close>

datatype error = ReferenceError string | TypeError string

section \<open>The animation presets (lib/animations.ts, unnamed/part_001)\<close>

definition fadeIn :: jsval where
  "fadeIn = VObj
     [(''hidden'', VObj [(''opacity'', numv 0)]),
      (''visible'', VObj [(''opacity'', numv 1)])]"

definition fadeInUp :: jsval where
  "fadeInUp = VObj
     [(''hidden'', VObj [(''opacity'', numv 0), (''y'', numv 20)]),
      (''visible'', VObj [(''opacity'', numv 1), (''y'', numv 0)])]"

definition fadeInDown :: jsval where
  "fadeInDown = VObj
     [(''hidden'', VObj [(''opacity'', numv 0), (''y'', numv (- 20))]),
      (''visible'', VObj [(''opacity'', numv 1), (''y'', numv 0)])]"

definition fadeInLeft :: jsval where
  "fadeInLeft = VObj
     [(''hidden'', VObj [(''opacity'', numv 0), (''x'', numv (- 20))]),
      (''visible'', VObj [(''opacity'', numv 1), (''x'', numv 0)])]"

definition fadeInRight :: jsval where
  "fadeInRight = VObj
     [(''hidden'', VObj [(''opacity'', numv 0), (''x'', numv 20)]),
      (''visible'', VObj [(''opacity'', numv 1), (''x'', numv 0)])]"

definition scaleIn :: jsval where
  "scaleIn = VObj
     [(''hidden'', VObj [(''opacity'', numv 0), (''scale'', numv 0.8)]),
      (''visible'', VObj [(''opacity'', numv 1), (''scale'', numv 1)])]"

definition scaleInUp :: jsval where
  "scaleInUp = VObj
     [(''hidden'', VObj [(''opacity'', numv 0), (''scale'', numv 0.8), (''y'', numv 20)]),
      (''visible'', VObj [(''opacity'', numv 1), (''scale'', numv 1), (''y'', numv 0)])]"

definition slideInLeft :: jsval where
  "slideInLeft = VObj
     [(''hidden'', VObj [(''x'', numv (- 100)), (''opacity'', numv 0)]),
      (''visible'', VObj [(''x'', numv 0), (''opacity'', numv 1)])]"

definition slideInRight :: jsval where
  "slideInRight = VObj
     [(''hidden'', VObj [(''x'', numv 100), (''opacity'', numv 0)]),
      (''visible'', VObj [(''x'', numv 0), (''opacity'', numv 1)])]"

definition slideInUp :: jsval where
  "slideInUp = VObj
     [(''hidden'', VObj [(''y'', numv 100), (''opacity'', numv 0)]),
      (''visible'', VObj [(''y'', numv 0), (''opacity'', numv 1)])]"

definition slideInDown :: jsval where
  "slideInDown = VObj
     [(''hidden'', VObj [(''y'', numv (- 100)), (''opacity'', numv 0)]),
      (''visible'', VObj [(''y'', numv 0), (''opacity'', numv 1)])]"

definition staggerContainer :: jsval where
  "staggerContainer = VObj
     [(''hidden'', VObj [(''opacity'', numv 0)]),
      (''visible'', VObj
         [(''opacity'', numv 1),
          (''transition'', VObj [(''staggerChildren'', numv 0.1), (''delayChildren'', numv 0.1)])])]"

definition staggerItem :: jsval where
  "staggerItem = VObj
     [(''hidden'', VObj [(''opacity'', numv 0), (''y'', numv 20)]),
      (''visible'', VObj
         [(''opacity'', numv 1),
          (''y'', numv 0),
          (''transition'', VObj [(''duration'', numv 0.5)])])]"

definition blur :: jsval where
  "blur = VObj
     [(''hidden'', VObj [(''opacity'', numv 0), (''filter'', lit ''blur(10px)'')]),
      (''visible'', VObj [(''opacity'', numv 1), (''filter'', lit ''blur(0px)'')])]"

definition rotate_preset :: jsval where
  "rotate_preset = VObj
     [(''hidden'', VObj [(''opacity'', numv 0), (''rotate'', numv (- 10))]),
      (''visible'', VObj [(''opacity'', numv 1), (''rotate'', numv 0)])]"

definition transitions :: jsval where
  "transitions = VObj
     [(''default'', VObj [(''duration'', numv 0.5), (''ease'', lit ''easeOut'')]),
      (''smooth'', VObj
         [(''duration'', numv 0.8),
          (''ease'', VArr [numv 0.6, numv 0.05, numv 0.01, numv 0.9])]),
      (''spring'', VObj
         [(''type'', lit ''spring''), (''stiffness'', numv 100), (''damping'', numv 15)]),
      (''bouncy'', VObj
         [(''type'', lit ''spring''), (''stiffness'', numv 300), (''damping'', numv 20)]),
      (''fast'', VObj [(''duration'', numv 0.3), (''ease'', lit ''easeOut'')]),
      (''slow'', VObj [(''duration'', numv 1), (''ease'', lit ''easeInOut'')])]"

definition viewportOptions :: jsval where
  "viewportOptions = VObj
     [(''once'', VBool True),
      (''margin'', lit ''0px 0px -100px 0px''),
      (''amount'', numv 0.3)]"

text \<open>
  What the specification says of a preset: its hidden state has opacity 0, its visible
  state has opacity 1, and in the visible state every offset or distortion that is present
  (\<open>x\<close>, \<open>y\<close>, \<open>rotate\<close>, the blur \<open>filter\<close>) is neutral and a \<open>scale\<close> that is present is 1.
\<close>

definition neutral_preset :: "jsval \<Rightarrow> bool" where
  "neutral_preset v =
     (case (field_of v ''hidden'', field_of v ''visible'') of
        (Some h, Some w) \<Rightarrow>
          field_of h ''opacity'' = Some (numv 0) \<and>
          field_of w ''opacity'' = Some (numv 1) \<and>
          field_of w ''x'' \<in> {None, Some (numv 0)} \<and>
          field_of w ''y'' \<in> {None, Some (numv 0)} \<and>
          field_of w ''rotate'' \<in> {None, Some (numv 0)} \<and>
          field_of w ''filter'' \<in> {None, Some (lit ''blur(0px)'')} \<and>
          field_of w ''scale'' \<in> {None, Some (numv 1)}
      | _ \<Rightarrow> False)"

section \<open>Markup\<close>

text \<open>
  What a component returns: an element with its props in source order and its children, a
  value placed as a child (a string, a number, or \<open>undefined\<close> and \<open>false\<close>, which React
  renders as nothing), or the array a \<^verbatim>\<open>map\<close> produces.
\<close>

datatype node =
    Elem string "(string \<times> jsval) list" "node list"
  | Val jsval
  | Arr "node list"

abbreviation Txt :: "jsstring \<Rightarrow> node" where
  "Txt s \<equiv> Val (VStr s)"

abbreviation Lit :: "string \<Rightarrow> node" where
  "Lit s \<equiv> Val (VStr (js s))"

abbreviation idx :: "nat \<Rightarrow> jsval" where
  "idx i \<equiv> VNum (Fin (real i))"

text \<open>The node at a path of child positions, and the tree with that node replaced.\<close>

fun node_at :: "nat list \<Rightarrow> node \<Rightarrow> node option" where
  "node_at [] n = Some n"
| "node_at (i # p) (Elem t a cs) = (if i < length cs then node_at p (cs ! i) else None)"
| "node_at (i # p) (Arr cs) = (if i < length cs then node_at p (cs ! i) else None)"
| "node_at (i # p) (Val v) = None"


text \<open>
  \<^verbatim>\<open>s && f(s)\<close> for an optional string prop \<open>s\<close>: \<open>undefined\<close> and the empty string are
  falsy, and a falsy left operand is the value of the expression.
\<close>

definition and_str :: "jsstring option \<Rightarrow> (jsstring \<Rightarrow> node) \<Rightarrow> node" where
  "and_str s f =
     (case s of None \<Rightarrow> Val VUndefined | Some t \<Rightarrow> if t = [] then Txt [] else f t)"

text \<open>\<^verbatim>\<open>o && f(o)\<close> for an optional object prop: an object is truthy.\<close>

definition and_obj :: "'a option \<Rightarrow> ('a \<Rightarrow> node) \<Rightarrow> node" where
  "and_obj x f = (case x of None \<Rightarrow> Val VUndefined | Some v \<Rightarrow> f v)"

text \<open>\<^verbatim>\<open>b && n\<close> for a boolean \<open>b\<close>, and for an optional boolean prop.\<close>

definition and_bool :: "bool \<Rightarrow> node \<Rightarrow> node" where
  "and_bool b n = (if b then n else Val (VBool False))"

definition and_optbool :: "bool option \<Rightarrow> node \<Rightarrow> node" where
  "and_optbool b n =
     (case b of None \<Rightarrow> Val VUndefined | Some c \<Rightarrow> if c then n else Val (VBool False))"

text \<open>An optional string prop handed on as a prop value.\<close>

definition opt_str :: "jsstring option \<Rightarrow> jsval" where
  "opt_str s = (case s of None \<Rightarrow> VUndefined | Some t \<Rightarrow> VStr t)"

text \<open>The decimal digits of an array index, as a template literal writes it.\<close>

function string_of_nat :: "nat \<Rightarrow> jsstring" where
  "string_of_nat n =
     (if n < 10 then [0x30 + of_nat n]
      else string_of_nat (n div 10) @ [0x30 + of_nat (n mod 10)])"
  by pat_completeness auto
termination
  by (relation "measure id") auto

declare string_of_nat.simps [simp del]

text \<open>The object type \<^verbatim>\<open>{ text: string; href: string }\<close> of the call-to-action props.\<close>

record Cta =
  cta_text :: jsstring
  cta_href :: jsstring

section \<open>FaqSection (src/components/sections/faq-section.tsx)\<close>

record Faq =
  question :: jsstring
  answer :: jsstring


section \<open>HeroSection (src/components/sections/hero-section.tsx)\<close>


section \<open>String operations of the JavaScript library\<close>

text \<open>
  \<^verbatim>\<open>String.prototype.toLowerCase\<close> maps every code point to its Unicode lower-case mapping,
  including the context-sensitive mapping of SpecialCasing.txt that ECMAScript requires:
  a capital sigma, U+03A3, becomes the final small sigma U+03C2 when it is preceded by a
  cased letter and not followed by one (case-ignorable characters between them are
  skipped), and the small sigma U+03C3 otherwise.

  The model covers an alphabet, Basic Latin and the Greek letters U+0391 to U+03A1, U+03A3
  to U+03A9 and U+03B1 to U+03C9, and nothing else: \<open>kind_of\<close> gives the kind of a code unit
  of the alphabet and \<open>None\<close> for any other code unit, and \<open>toLowerCase\<close> is \<open>None\<close> on a
  string that has a code unit outside the alphabet.
\<close>

datatype unit_kind =
    Capital
  | CapitalSigma
  | Small
  | Ignorable
  | Uncased

text \<open>
  \<open>Capital\<close> are the letters A to Z and the Greek capitals but the sigma, whose lower-case
  mapping is 32 code units up; \<open>Small\<close> are the letters a to z and the Greek small letters,
  the final sigma among them; \<open>Ignorable\<close> are the case-ignorable characters of Basic Latin:
  apostrophe, full stop, colon, circumflex and grave accent; \<open>Uncased\<close> is the rest of Basic
  Latin.
\<close>

definition kind_of :: "16 word \<Rightarrow> unit_kind option" where
  "kind_of c =
     (if c = 0x3A3 then Some CapitalSigma
      else if (0x41 \<le> c \<and> c \<le> 0x5A) \<or> (0x391 \<le> c \<and> c \<le> 0x3A1) \<or>
              (0x3A4 \<le> c \<and> c \<le> 0x3A9) then Some Capital
      else if (0x61 \<le> c \<and> c \<le> 0x7A) \<or> (0x3B1 \<le> c \<and> c \<le> 0x3C9) then Some Small
      else if c \<in> {0x27, 0x2E, 0x3A, 0x5E, 0x60} then Some Ignorable
      else if c < 0x80 then Some Uncased
      else None)"

text \<open>Whether the units of the kinds \<open>ks\<close>, read away from a sigma, reach a cased letter
  across case-ignorable characters only.\<close>

fun cased_next :: "unit_kind list \<Rightarrow> bool" where
  "cased_next [] = False"
| "cased_next (k # ks) =
     (if k = Ignorable then cased_next ks else k \<in> {Capital, CapitalSigma, Small})"

text \<open>\<open>lower_from passed s\<close> lower-cases the units \<open>s\<close>, given with their kinds, where
  \<open>passed\<close> holds the kinds of the units already passed, the nearest first.\<close>

fun lower_from :: "unit_kind list \<Rightarrow> (16 word \<times> unit_kind) list \<Rightarrow> jsstring" where
  "lower_from passed [] = []"
| "lower_from passed ((c, k) # cs) =
     (case k of
        CapitalSigma \<Rightarrow> if cased_next passed \<and> \<not> cased_next (map snd cs) then 0x3C2 else 0x3C3
      | Capital \<Rightarrow> c + 0x20
      | _ \<Rightarrow> c) # lower_from (k # passed) cs"

definition toLowerCase :: "jsstring \<Rightarrow> jsstring option" where
  "toLowerCase s =
     (case those (map kind_of s) of
        None \<Rightarrow> None
      | Some ks \<Rightarrow> Some (lower_from [] (zip s ks)))"

text \<open>\<^verbatim>\<open>s.includes(q)\<close>: \<open>q\<close> occurs in \<open>s\<close> as a run of consecutive code units.\<close>

fun startsWith :: "jsstring \<Rightarrow> jsstring \<Rightarrow> bool" where
  "startsWith s [] = True"
| "startsWith [] (q # qs) = False"
| "startsWith (c # cs) (q # qs) = (c = q \<and> startsWith cs qs)"

fun js_includes :: "jsstring \<Rightarrow> jsstring \<Rightarrow> bool" where
  "js_includes [] q = (q = [])"
| "js_includes (c # cs) q = (startsWith (c # cs) q \<or> js_includes cs q)"

text \<open>\<^verbatim>\<open>s.split(sep)\<close> for a separator of one code unit: the pieces between the separators,
  empty pieces included; the empty string splits into one empty piece.\<close>

fun js_split :: "16 word \<Rightarrow> jsstring \<Rightarrow> jsstring list" where
  "js_split sep [] = [[]]"
| "js_split sep (c # cs) =
     (if c = sep then [] # js_split sep cs
      else (case js_split sep cs of w # ws \<Rightarrow> (c # w) # ws | [] \<Rightarrow> [[c]]))"

text \<open>\<^verbatim>\<open>n[0]\<close>: the first code unit as a string, \<open>undefined\<close> (here \<open>None\<close>) on the empty
  string.\<close>

definition char_at_0 :: "jsstring \<Rightarrow> jsstring option" where
  "char_at_0 n = (case n of [] \<Rightarrow> None | c # cs \<Rightarrow> Some [c])"

text \<open>\<^verbatim>\<open>xs.join(sep)\<close>: an \<open>undefined\<close> element is written as the empty string.\<close>

fun js_join :: "jsstring \<Rightarrow> jsstring option list \<Rightarrow> jsstring" where
  "js_join sep [] = []"
| "js_join sep [x] = (case x of None \<Rightarrow> [] | Some s \<Rightarrow> s)"
| "js_join sep (x # y # ys) =
     (case x of None \<Rightarrow> [] | Some s \<Rightarrow> s) @ sep @ js_join sep (y # ys)"

section \<open>FaqSectionSearchable (faq-searchable, in src/components/sections/variants/steps-horizontal.tsx)\<close>

text \<open>
  \<^verbatim>\<open>xs.filter(p)\<close> for a callback \<open>p\<close> whose result the model may not know: the elements
  on which \<open>p\<close> is true, in their order, and \<open>None\<close> when \<open>p\<close> is \<open>None\<close> on an element.
\<close>

fun filter_option :: "('a \<Rightarrow> bool option) \<Rightarrow> 'a list \<Rightarrow> 'a list option" where
  "filter_option p [] = Some []"
| "filter_option p (x # xs) =
     (case p x of
        None \<Rightarrow> None
      | Some b \<Rightarrow>
          (case filter_option p xs of
             None \<Rightarrow> None
           | Some ys \<Rightarrow> Some (if b then x # ys else ys)))"

text \<open>
  The constant \<open>filteredFaqs\<close> of the component, for the props' \<open>faqs\<close> and the state
  \<open>searchQuery\<close>.  The callback lower-cases the question and the search string and, when
  the first does not include the second, the answer and the search string.
\<close>

definition filteredFaqs :: "Faq list \<Rightarrow> jsstring \<Rightarrow> Faq list option" where
  "filteredFaqs faqs searchQuery =
     filter_option (\<lambda>faq.
        case (toLowerCase (question faq), toLowerCase searchQuery) of
          (Some q, Some s) \<Rightarrow>
            if js_includes q s then Some True
            else (case toLowerCase (answer faq) of
                    None \<Rightarrow> None
                  | Some a \<Rightarrow> Some (js_includes a s))
        | _ \<Rightarrow> None)
      faqs"

text \<open>The last argument is the state \<open>searchQuery\<close>, initially the empty string.  The
  result is \<open>None\<close> where \<open>filteredFaqs\<close> is, outside the alphabet of \<open>toLowerCase\<close>.\<close>

definition FaqSectionSearchable ::
  "jsstring option \<Rightarrow> jsstring \<Rightarrow> jsstring option \<Rightarrow> Faq list \<Rightarrow> jsstring \<Rightarrow>
   node option" where
  "FaqSectionSearchable badge title description faqs searchQuery =
     (case filteredFaqs faqs searchQuery of
        None \<Rightarrow> None
      | Some filtered \<Rightarrow> Some (
     Elem ''section'' [(''className'', lit ''py-20 sm:py-32 bg-secondary/30'')]
      [Elem ''div'' [(''className'', lit ''container mx-auto px-4'')]
        [Elem ''motion.div''
          [(''initial'', VObj [(''opacity'', numv 0), (''y'', numv 20)]),
           (''whileInView'', VObj [(''opacity'', numv 1), (''y'', numv 0)]),
           (''viewport'', viewportOptions),
           (''className'', lit ''mx-auto max-w-2xl text-center mb-12'')]
          [and_str badge (\<lambda>badge.
             Elem ''span''
               [(''className'', lit ''inline-flex items-center rounded-full border border-primary/20 bg-primary/10 px-4 py-1.5 text-sm font-medium text-primary mb-4'')]
               [Txt badge]),
           Elem ''h2''
             [(''className'', lit ''text-3xl font-bold tracking-tight sm:text-4xl lg:text-5xl mb-4'')]
             [Txt title],
           and_str description (\<lambda>description.
             Elem ''p'' [(''className'', lit ''text-lg text-muted-foreground'')]
               [Txt description])],
         Elem ''motion.div''
          [(''initial'', VObj [(''opacity'', numv 0), (''y'', numv 20)]),
           (''whileInView'', VObj [(''opacity'', numv 1), (''y'', numv 0)]),
           (''viewport'', viewportOptions),
           (''className'', lit ''mx-auto max-w-3xl mb-12'')]
          [Elem ''div'' [(''className'', lit ''relative'')]
            [Elem ''Search''
              [(''className'', lit ''absolute left-4 top-1/2 -translate-y-1/2 size-5 text-muted-foreground'')]
              [],
             Elem ''Input''
              [(''type'', lit ''text''),
               (''placeholder'', lit ''Search frequently asked questions...''),
               (''value'', VStr searchQuery),
               (''onChange'', VHandler SetSearchQueryToTargetValue),
               (''className'', lit ''pl-12 h-14 text-base'')]
              []]],
         Elem ''motion.div''
          [(''variants'', fadeInUp),
           (''initial'', lit ''hidden''),
           (''whileInView'', lit ''visible''),
           (''viewport'', viewportOptions),
           (''className'', lit ''mx-auto max-w-3xl'')]
          [if length filtered > 0 then
             Elem ''Accordion''
              [(''type'', lit ''single''),
               (''collapsible'', VBool True),
               (''className'', lit ''space-y-4'')]
              [Arr (map (\<lambda>(index, faq).
                 Elem ''AccordionItem''
                   [(''key'', idx index),
                    (''value'', VStr (js ''item-'' @ string_of_nat index)),
                    (''className'', lit ''border rounded-lg px-6 bg-card'')]
                   [Elem ''AccordionTrigger''
                     [(''className'', lit ''text-left hover:no-underline py-4'')]
                     [Elem ''span'' [(''className'', lit ''font-semibold'')] [Txt (question faq)]],
                    Elem ''AccordionContent''
                     [(''className'', lit ''text-muted-foreground pb-4'')]
                     [Txt (answer faq)]])
                (enumerate 0 filtered))]
           else
             Elem ''div'' [(''className'', lit ''text-center py-12'')]
              [Elem ''p'' [(''className'', lit ''text-muted-foreground text-lg'')]
                [Txt (js ''No results found for '' @ [0x22]), Txt searchQuery, Txt [0x22]],
               Elem ''p'' [(''className'', lit ''text-sm text-muted-foreground mt-2'')]
                [Lit ''Try searching with different keywords'']]]]]))"

section \<open>TestimonialsSection (src/components/sections/testimonials-section.tsx)\<close>

text \<open>The interface \<open>Testimonial\<close>, declared alike in the three testimonial files.\<close>

record Testimonial =
  name :: jsstring
  role :: jsstring
  company :: jsstring
  avatar :: "jsstring option"
  rating :: number
  content :: jsstring

definition TestimonialsSection ::
  "jsstring option \<Rightarrow> jsstring \<Rightarrow> jsstring option \<Rightarrow> Testimonial list \<Rightarrow> node" where
  "TestimonialsSection badge title description testimonials =
     Elem ''section'' [(''className'', lit ''py-20 sm:py-32'')]
      [Elem ''div'' [(''className'', lit ''container mx-auto px-4'')]
        [Elem ''motion.div''
          [(''initial'', VObj [(''opacity'', numv 0), (''y'', numv 20)]),
           (''whileInView'', VObj [(''opacity'', numv 1), (''y'', numv 0)]),
           (''viewport'', viewportOptions),
           (''className'', lit ''mx-auto max-w-2xl text-center mb-16'')]
          [and_str badge (\<lambda>badge.
             Elem ''span''
               [(''className'', lit ''inline-flex items-center rounded-full border border-primary/20 bg-primary/10 px-4 py-1.5 text-sm font-medium text-primary mb-4'')]
               [Txt badge]),
           Elem ''h2''
             [(''className'', lit ''text-3xl font-bold tracking-tight sm:text-4xl lg:text-5xl mb-4'')]
             [Txt title],
           and_str description (\<lambda>description.
             Elem ''p'' [(''className'', lit ''text-lg text-muted-foreground'')]
               [Txt description])],
         Elem ''motion.div''
          [(''variants'', staggerContainer),
           (''initial'', lit ''hidden''),
           (''whileInView'', lit ''visible''),
           (''viewport'', viewportOptions),
           (''className'', lit ''grid gap-8 sm:grid-cols-2 lg:grid-cols-3'')]
          [Arr (map (\<lambda>(index, testimonial).
             Elem ''motion.div'' [(''key'', idx index), (''variants'', staggerItem)]
              [Elem ''Card''
                [(''className'', lit ''h-full border-2 transition-all hover:border-primary/50 hover:shadow-lg'')]
                [Elem ''CardContent'' [(''className'', lit ''p-6'')]
                  [Elem ''div'' [(''className'', lit ''mb-4 flex gap-1'')]
                    [Arr (map (\<lambda>i.
                       Elem ''Star''
                        [(''key'', idx i),
                         (''className'', VStr (js ''size-4 '' @
                            (if num_less (Fin (real i)) (rating testimonial)
                             then js ''fill-yellow-400 text-yellow-400''
                             else js ''fill-muted text-muted'')))]
                        [])
                      [0..<5])],
                   Elem ''blockquote'' [(''className'', lit ''mb-6 text-muted-foreground'')]
                    [Txt [0x22], Txt (content testimonial), Txt [0x22]],
                   Elem ''div'' [(''className'', lit ''flex items-center gap-3'')]
                    [Elem ''Avatar'' []
                      [Elem ''AvatarImage''
                        [(''src'', opt_str (avatar testimonial)),
                         (''alt'', VStr (name testimonial))]
                        [],
                       Elem ''AvatarFallback'' []
                        [Txt (js_join [] (map (\<lambda>n. char_at_0 n)
                           (js_split 0x20 (name testimonial))))]],
                     Elem ''div'' []
                      [Elem ''div'' [(''className'', lit ''font-semibold'')]
                        [Txt (name testimonial)],
                       Elem ''div'' [(''className'', lit ''text-sm text-muted-foreground'')]
                        [Txt (role testimonial), Lit '' at '', Txt (company testimonial)]]]]]])
            (enumerate 0 testimonials))]]]"

section \<open>TestimonialsSectionMasonry (src/components/sections/variants/testimonials-masonry.tsx)\<close>

definition TestimonialsSectionMasonry ::
  "jsstring option \<Rightarrow> jsstring \<Rightarrow> jsstring option \<Rightarrow> Testimonial list \<Rightarrow> node" where
  "TestimonialsSectionMasonry badge title description testimonials =
     Elem ''section'' [(''className'', lit ''py-20 sm:py-32'')]
      [Elem ''div'' [(''className'', lit ''container mx-auto px-4'')]
        [Elem ''motion.div''
          [(''initial'', VObj [(''opacity'', numv 0), (''y'', numv 20)]),
           (''whileInView'', VObj [(''opacity'', numv 1), (''y'', numv 0)]),
           (''viewport'', viewportOptions),
           (''className'', lit ''mx-auto max-w-2xl text-center mb-16'')]
          [and_str badge (\<lambda>badge.
             Elem ''span''
               [(''className'', lit ''inline-flex items-center rounded-full border border-primary/20 bg-primary/10 px-4 py-1.5 text-sm font-medium text-primary mb-4'')]
               [Txt badge]),
           Elem ''h2''
             [(''className'', lit ''text-3xl font-bold tracking-tight sm:text-4xl lg:text-5xl mb-4'')]
             [Txt title],
           and_str description (\<lambda>description.
             Elem ''p'' [(''className'', lit ''text-lg text-muted-foreground'')]
               [Txt description])],
         Elem ''motion.div''
          [(''variants'', staggerContainer),
           (''initial'', lit ''hidden''),
           (''whileInView'', lit ''visible''),
           (''viewport'', viewportOptions),
           (''className'', lit ''columns-1 sm:columns-2 lg:columns-3 gap-6 space-y-6'')]
          [Arr (map (\<lambda>(index, testimonial).
             Elem ''motion.div''
              [(''key'', idx index), (''variants'', staggerItem),
               (''className'', lit ''break-inside-avoid'')]
              [Elem ''Card''
                [(''className'', lit ''border-2 transition-all hover:border-primary/50 hover:shadow-lg'')]
                [Elem ''CardContent'' [(''className'', lit ''p-6'')]
                  [Elem ''div'' [(''className'', lit ''mb-4 flex gap-1'')]
                    [Arr (map (\<lambda>i.
                       Elem ''Star''
                        [(''key'', idx i),
                         (''className'', VStr (js ''size-4 '' @
                            (if num_less (Fin (real i)) (rating testimonial)
                             then js ''fill-yellow-400 text-yellow-400''
                             else js ''fill-muted text-muted'')))]
                        [])
                      [0..<5])],
                   Elem ''blockquote'' [(''className'', lit ''mb-6 text-muted-foreground'')]
                    [Txt [0x22], Txt (content testimonial), Txt [0x22]],
                   Elem ''div'' [(''className'', lit ''flex items-center gap-3'')]
                    [Elem ''Avatar'' [(''className'', lit ''size-10'')]
                      [Elem ''AvatarImage''
                        [(''src'', opt_str (avatar testimonial)),
                         (''alt'', VStr (name testimonial))]
                        [],
                       Elem ''AvatarFallback'' []
                        [Txt (js_join [] (map (\<lambda>n. char_at_0 n)
                           (js_split 0x20 (name testimonial))))]],
                     Elem ''div'' []
                      [Elem ''div'' [(''className'', lit ''font-semibold text-sm'')]
                        [Txt (name testimonial)],
                       Elem ''div'' [(''className'', lit ''text-xs text-muted-foreground'')]
                        [Txt (role testimonial)]]]]]])
            (enumerate 0 testimonials))]]]"

section \<open>TestimonialsSectionCarousel (testimonials-carousel, unnamed/part_010)\<close>

text \<open>
  The last argument is the state \<open>currentIndex\<close>, initially 0.  The render reads
  \<^verbatim>\<open>testimonials[currentIndex]\<close> and then its fields; when that element is \<open>undefined\<close>
  the first field read, of \<open>rating\<close>, throws.
\<close>

definition TestimonialsSectionCarousel ::
  "jsstring option \<Rightarrow> jsstring \<Rightarrow> jsstring option \<Rightarrow> Testimonial list \<Rightarrow> number \<Rightarrow>
   error + node" where
  "TestimonialsSectionCarousel badge title description testimonials currentIndex =
     (case at_index testimonials currentIndex of
        None \<Rightarrow> Inl (TypeError ''rating'')
      | Some currentTestimonial \<Rightarrow> Inr (
     Elem ''section'' [(''className'', lit ''py-20 sm:py-32 bg-secondary/30'')]
      [Elem ''div'' [(''className'', lit ''container mx-auto px-4'')]
        [Elem ''motion.div''
          [(''initial'', VObj [(''opacity'', numv 0), (''y'', numv 20)]),
           (''whileInView'', VObj [(''opacity'', numv 1), (''y'', numv 0)]),
           (''viewport'', viewportOptions),
           (''className'', lit ''mx-auto max-w-2xl text-center mb-16'')]
          [and_str badge (\<lambda>badge.
             Elem ''span''
               [(''className'', lit ''inline-flex items-center rounded-full border border-primary/20 bg-primary/10 px-4 py-1.5 text-sm font-medium text-primary mb-4'')]
               [Txt badge]),
           Elem ''h2''
             [(''className'', lit ''text-3xl font-bold tracking-tight sm:text-4xl lg:text-5xl mb-4'')]
             [Txt title],
           and_str description (\<lambda>description.
             Elem ''p'' [(''className'', lit ''text-lg text-muted-foreground'')]
               [Txt description])],
         Elem ''div'' [(''className'', lit ''mx-auto max-w-4xl relative'')]
          [Elem ''AnimatePresence'' [(''mode'', lit ''wait'')]
            [Elem ''motion.div''
              [(''key'', VNum currentIndex),
               (''initial'', VObj [(''opacity'', numv 0), (''x'', numv 100)]),
               (''animate'', VObj [(''opacity'', numv 1), (''x'', numv 0)]),
               (''exit'', VObj [(''opacity'', numv 0), (''x'', numv (- 100))]),
               (''transition'', VObj [(''duration'', numv 0.3)])]
              [Elem ''Card'' [(''className'', lit ''border-2'')]
                [Elem ''CardContent'' [(''className'', lit ''p-8 sm:p-12'')]
                  [Elem ''Quote'' [(''className'', lit ''size-12 text-primary/20 mb-6'')] [],
                   Elem ''div'' [(''className'', lit ''mb-6 flex gap-1'')]
                    [Arr (map (\<lambda>i.
                       Elem ''Star''
                        [(''key'', idx i),
                         (''className'', VStr (js ''size-5 '' @
                            (if num_less (Fin (real i)) (rating currentTestimonial)
                             then js ''fill-yellow-400 text-yellow-400''
                             else js ''fill-muted text-muted'')))]
                        [])
                      [0..<5])],
                   Elem ''blockquote''
                    [(''className'', lit ''mb-8 text-xl sm:text-2xl font-medium'')]
                    [Txt [0x22], Txt (content currentTestimonial), Txt [0x22]],
                   Elem ''div'' [(''className'', lit ''flex items-center gap-4'')]
                    [Elem ''Avatar'' [(''className'', lit ''size-14'')]
                      [Elem ''AvatarImage''
                        [(''src'', opt_str (avatar currentTestimonial)),
                         (''alt'', VStr (name currentTestimonial))]
                        [],
                       Elem ''AvatarFallback'' []
                        [Txt (js_join [] (map (\<lambda>n. char_at_0 n)
                           (js_split 0x20 (name currentTestimonial))))]],
                     Elem ''div'' []
                      [Elem ''div'' [(''className'', lit ''font-semibold text-lg'')]
                        [Txt (name currentTestimonial)],
                       Elem ''div'' [(''className'', lit ''text-muted-foreground'')]
                        [Txt (role currentTestimonial), Lit '' at '',
                         Txt (company currentTestimonial)]]]]]]],
           Elem ''div'' [(''className'', lit ''flex items-center justify-center gap-4 mt-8'')]
            [Elem ''Button''
              [(''variant'', lit ''outline''), (''size'', lit ''icon''),
               (''onClick'', VHandler Previous),
               (''disabled'', VBool (length testimonials \<le> 1))]
              [Elem ''ChevronLeft'' [(''className'', lit ''size-4'')] []],
             Elem ''div'' [(''className'', lit ''flex gap-2'')]
              [Arr (map (\<lambda>(index, _).
                 Elem ''button''
                  [(''key'', idx index),
                   (''onClick'', VHandler (SetCurrentIndex index)),
                   (''className'', VStr (js ''size-2 rounded-full transition-all '' @
                      (if Fin (real index) = currentIndex
                       then js ''bg-primary w-8''
                       else js ''bg-muted hover:bg-primary/50''))),
                   (''aria-label'', VStr (js ''Go to testimonial '' @ string_of_nat (index + 1)))]
                  [])
                (enumerate 0 testimonials))],
             Elem ''Button''
              [(''variant'', lit ''outline''), (''size'', lit ''icon''),
               (''onClick'', VHandler Next),
               (''disabled'', VBool (length testimonials \<le> 1))]
              [Elem ''ChevronRight'' [(''className'', lit ''size-4'')] []]]]]]))"

text \<open>
  The state updates of the carousel for the length \<open>n\<close> of \<open>testimonials\<close>: \<open>Next\<close> is
  \<^verbatim>\<open>(prev) => (prev + 1) % testimonials.length\<close>, \<open>Previous\<close> is
  \<^verbatim>\<open>(prev) => (prev - 1 + testimonials.length) % testimonials.length\<close>, and a dot sets its own
  index.  The carousel installs no other handler.
\<close>

fun carousel_update :: "nat \<Rightarrow> action \<Rightarrow> number \<Rightarrow> number" where
  "carousel_update n Next prev = num_rem (num_add prev (Fin 1)) (Fin (real n))"
| "carousel_update n Previous prev =
     num_rem (num_add (num_sub prev (Fin 1)) (Fin (real n))) (Fin (real n))"
| "carousel_update n (SetCurrentIndex index) prev = Fin (real index)"
| "carousel_update n a prev = prev"

section \<open>NavbarCentered (navbar-centered, in src/components/sections/variants/hero-split.tsx)\<close>

record NavLink =
  label :: jsstring
  href :: jsstring

text \<open>
  The last argument is the state \<open>isOpen\<close>, initially \<open>false\<close>.  The constants \<open>left\<close> and
  \<open>right\<close> of the component are \<^verbatim>\<open>leftLinks || links.slice(0, Math.ceil(links.length / 2))\<close>
  and \<^verbatim>\<open>rightLinks || links.slice(Math.ceil(links.length / 2))\<close>; an array, empty or not,
  is truthy.
\<close>

definition NavbarCentered ::
  "jsstring \<Rightarrow> NavLink list \<Rightarrow> NavLink list option \<Rightarrow> NavLink list option \<Rightarrow> Cta option \<Rightarrow>
   bool \<Rightarrow> node" where
  "NavbarCentered brandName links leftLinks rightLinks ctaButton isOpen =
     (let left = (case leftLinks of
                    None \<Rightarrow> take (ceil_half (length links)) links
                  | Some l \<Rightarrow> l);
          right = (case rightLinks of
                     None \<Rightarrow> drop (ceil_half (length links)) links
                   | Some r \<Rightarrow> r)
      in
      Elem ''header''
       [(''className'', lit ''sticky top-0 z-50 w-full border-b bg-background/95 backdrop-blur supports-[backdrop-filter]:bg-background/60'')]
       [Elem ''nav''
         [(''className'', lit ''container mx-auto flex h-16 items-center justify-between px-4'')]
         [Elem ''div'' [(''className'', lit ''hidden md:flex md:items-center md:gap-6'')]
           [Arr (map (\<lambda>(index, link).
              Elem ''a''
               [(''key'', idx index),
                (''href'', VStr (href link)),
                (''className'', lit ''text-sm font-medium text-muted-foreground transition-colors hover:text-primary'')]
               [Txt (label link)])
             (enumerate 0 left))],
          Elem ''a''
           [(''href'', lit ''/''),
            (''className'', lit ''flex items-center space-x-2 md:absolute md:left-1/2 md:-translate-x-1/2'')]
           [Elem ''span'' [(''className'', lit ''text-xl font-bold'')] [Txt brandName]],
          Elem ''div'' [(''className'', lit ''hidden md:flex md:items-center md:gap-6'')]
           [Arr (map (\<lambda>(index, link).
              Elem ''a''
               [(''key'', idx index),
                (''href'', VStr (href link)),
                (''className'', lit ''text-sm font-medium text-muted-foreground transition-colors hover:text-primary'')]
               [Txt (label link)])
             (enumerate 0 right)),
            and_obj ctaButton (\<lambda>ctaButton.
              Elem ''Button'' [(''asChild'', VBool True), (''size'', lit ''sm'')]
               [Elem ''a'' [(''href'', VStr (cta_href ctaButton))] [Txt (cta_text ctaButton)]])],
          Elem ''Sheet'' [(''open'', VBool isOpen), (''onOpenChange'', VHandler OnOpenChange)]
           [Elem ''SheetTrigger'' [(''asChild'', VBool True), (''className'', lit ''md:hidden'')]
             [Elem ''Button'' [(''variant'', lit ''ghost''), (''size'', lit ''icon'')]
               [Elem ''Menu'' [(''className'', lit ''size-5'')] [],
                Elem ''span'' [(''className'', lit ''sr-only'')] [Lit ''Toggle menu'']]],
            Elem ''SheetContent''
             [(''side'', lit ''right''), (''className'', lit ''w-[300px] sm:w-[400px]'')]
             [Elem ''nav'' [(''className'', lit ''flex flex-col gap-4 mt-8 px-2'')]
               [Arr (map (\<lambda>(index, link).
                  Elem ''a''
                   [(''key'', idx index),
                    (''href'', VStr (href link)),
                    (''onClick'', VHandler (SetIsOpen False)),
                    (''className'', lit ''text-lg font-medium text-muted-foreground transition-colors hover:text-primary'')]
                   [Txt (label link)])
                 (enumerate 0 (left @ right))),
                and_obj ctaButton (\<lambda>ctaButton.
                  Elem ''Button'' [(''asChild'', VBool True), (''className'', lit ''mt-4'')]
                   [Elem ''a''
                     [(''href'', VStr (cta_href ctaButton)),
                      (''onClick'', VHandler (SetIsOpen False))]
                     [Txt (cta_text ctaButton)]])]]]]])"

section \<open>PricingSectionToggle (pricing-toggle, unnamed/part_012)\<close>

text \<open>The interface \<open>PricingTierWithToggle\<close>: \<open>PricingTier\<close> without \<open>price\<close>, with the two
  prices.  Its fields \<open>name\<close> and \<open>description\<close> are written \<open>tier_name\<close> and
  \<open>tier_description\<close>.\<close>

record PricingTierWithToggle =
  tier_name :: jsstring
  period :: jsstring
  tier_description :: jsstring
  features :: "jsstring list"
  cta :: Cta
  popular :: "bool option"
  monthlyPrice :: jsstring
  yearlyPrice :: jsstring

text \<open>
  The helper \<open>cn\<close> of \<^verbatim>\<open>@/lib/utils\<close>, which joins class names, is not among the sources and
  is the first argument.  The parameter \<open>yearlyDiscount\<close> has the default
  \<^verbatim>\<open>"Save 20%"\<close>.  The last argument is the state \<open>isYearly\<close>, initially \<open>false\<close>.
\<close>

definition PricingSectionToggle ::
  "(jsstring list \<Rightarrow> jsstring) \<Rightarrow> jsstring option \<Rightarrow> jsstring \<Rightarrow> jsstring option \<Rightarrow>
   PricingTierWithToggle list \<Rightarrow> jsstring option \<Rightarrow> bool \<Rightarrow> node" where
  "PricingSectionToggle cn badge title description pricingTiers yearlyDiscount_prop isYearly =
     (let yearlyDiscount =
            (case yearlyDiscount_prop of None \<Rightarrow> js ''Save 20%'' | Some y \<Rightarrow> y) in
      Elem ''section'' [(''className'', lit ''py-20 sm:py-32 bg-secondary/30'')]
       [Elem ''div'' [(''className'', lit ''container mx-auto px-4'')]
         [Elem ''motion.div''
           [(''initial'', VObj [(''opacity'', numv 0), (''y'', numv 20)]),
            (''whileInView'', VObj [(''opacity'', numv 1), (''y'', numv 0)]),
            (''viewport'', viewportOptions),
            (''className'', lit ''mx-auto max-w-2xl text-center mb-12'')]
           [and_str badge (\<lambda>badge.
              Elem ''span''
                [(''className'', lit ''inline-flex items-center rounded-full border border-primary/20 bg-primary/10 px-4 py-1.5 text-sm font-medium text-primary mb-4'')]
                [Txt badge]),
            Elem ''h2''
              [(''className'', lit ''text-3xl font-bold tracking-tight sm:text-4xl lg:text-5xl mb-4'')]
              [Txt title],
            and_str description (\<lambda>description.
              Elem ''p'' [(''className'', lit ''text-lg text-muted-foreground'')]
                [Txt description])],
          Elem ''div'' [(''className'', lit ''flex items-center justify-center gap-4 mb-12'')]
           [Elem ''span''
             [(''className'', VStr (js ''text-sm font-medium transition-colors '' @
                 (if \<not> isYearly then js ''text-foreground'' else js ''text-muted-foreground'')))]
             [Lit ''Monthly''],
            Elem ''button''
             [(''onClick'', VHandler (SetIsYearly (\<not> isYearly))),
              (''className'', VStr (cn
                 [js ''relative inline-flex h-6 w-11 items-center rounded-full transition-colors'',
                  if isYearly then js ''bg-primary'' else js ''bg-muted'']))]
             [Elem ''span''
               [(''className'', VStr (cn
                   [js ''inline-block h-4 w-4 transform rounded-full bg-white transition-transform'',
                    if isYearly then js ''translate-x-6'' else js ''translate-x-1'']))]
               []],
            Elem ''span''
             [(''className'', VStr (js ''text-sm font-medium transition-colors '' @
                 (if isYearly then js ''text-foreground'' else js ''text-muted-foreground'')))]
             [Lit ''Yearly''],
            and_bool isYearly
              (Elem ''Badge'' [(''variant'', lit ''secondary''), (''className'', lit ''ml-2'')]
                [Txt yearlyDiscount])],
          Elem ''motion.div''
           [(''variants'', staggerContainer),
            (''initial'', lit ''hidden''),
            (''whileInView'', lit ''visible''),
            (''viewport'', viewportOptions),
            (''className'', lit ''grid gap-8 lg:grid-cols-3'')]
           [Arr (map (\<lambda>(index, tier).
              Elem ''motion.div'' [(''key'', idx index), (''variants'', staggerItem)]
               [Elem ''Card''
                 [(''className'', VStr (js ''relative h-full border-2 transition-all hover:shadow-lg '' @
                     (if popular tier = Some True
                      then js ''border-primary shadow-xl scale-105''
                      else js ''border-border hover:border-primary/50'')))]
                 [and_optbool (popular tier)
                    (Elem ''div'' [(''className'', lit ''absolute -top-4 left-1/2 -translate-x-1/2'')]
                      [Elem ''Badge''
                        [(''className'', lit ''bg-primary text-primary-foreground px-4 py-1'')]
                        [Lit ''Most Popular'']]),
                  Elem ''CardHeader'' [(''className'', lit ''text-center pb-8 pt-8'')]
                   [Elem ''CardTitle'' [(''className'', lit ''text-2xl mb-2'')]
                     [Txt (tier_name tier)],
                    Elem ''div'' [(''className'', lit ''mb-2'')]
                     [Elem ''motion.span''
                       [(''key'', if isYearly then lit ''yearly'' else lit ''monthly''),
                        (''initial'', VObj [(''opacity'', numv 0), (''y'', numv (- 10))]),
                        (''animate'', VObj [(''opacity'', numv 1), (''y'', numv 0)]),
                        (''className'', lit ''text-4xl font-bold'')]
                       [Txt (if isYearly then yearlyPrice tier else monthlyPrice tier)],
                      Elem ''span'' [(''className'', lit ''text-muted-foreground'')]
                       [Lit ''/'', Txt (period tier)],
                      and_bool isYearly
                        (Elem ''div'' [(''className'', lit ''text-xs text-muted-foreground mt-1'')]
                          [Lit ''Billed annually''])],
                    Elem ''p'' [(''className'', lit ''text-sm text-muted-foreground'')]
                     [Txt (tier_description tier)]],
                  Elem ''CardContent'' [(''className'', lit ''space-y-6'')]
                   [Elem ''ul'' [(''className'', lit ''space-y-3'')]
                     [Arr (map (\<lambda>(featureIndex, feature).
                        Elem ''li''
                         [(''key'', idx featureIndex),
                          (''className'', lit ''flex items-start gap-3'')]
                         [Elem ''Check''
                           [(''className'', lit ''size-5 shrink-0 text-primary mt-0.5'')] [],
                          Elem ''span'' [(''className'', lit ''text-sm'')] [Txt feature]])
                       (enumerate 0 (features tier)))],
                    Elem ''Button''
                     [(''asChild'', VBool True),
                      (''className'', lit ''w-full''),
                      (''variant'', if popular tier = Some True then lit ''default'' else lit ''outline''),
                      (''size'', lit ''lg'')]
                     [Elem ''a'' [(''href'', VStr (cta_href (cta tier)))]
                       [Txt (cta_text (cta tier))]]]]])
             (enumerate 0 pricingTiers))]]])"

text \<open>The state update of the toggle: \<^verbatim>\<open>setIsYearly(b)\<close>.  The component installs no other
  handler.\<close>

fun pricing_update :: "action \<Rightarrow> bool \<Rightarrow> bool" where
  "pricing_update (SetIsYearly b) isYearly = b"
| "pricing_update a isYearly = isYearly"

section \<open>Evaluation of markup that refers to module bindings\<close>

text \<open>
  A module binds the names it imports and declares; evaluating any other identifier throws
  a ReferenceError.  For the two modules below the markup is therefore built by evaluation:
  \<open>jsx\<close> evaluates the element type, then the props in source order, then the children,
  and the first error is the result.
\<close>

fun sequence :: "(error + 'a) list \<Rightarrow> error + 'a list" where
  "sequence [] = Inr []"
| "sequence (x # xs) =
     (case x of
        Inl e \<Rightarrow> Inl e
      | Inr v \<Rightarrow> (case sequence xs of Inl e \<Rightarrow> Inl e | Inr vs \<Rightarrow> Inr (v # vs)))"

definition jsx ::
  "error + unit \<Rightarrow> string \<Rightarrow> (string \<times> (error + jsval)) list \<Rightarrow> (error + node) list \<Rightarrow>
   error + node" where
  "jsx ty tag props children =
     (case ty of
        Inl e \<Rightarrow> Inl e
      | Inr u \<Rightarrow>
          (case sequence (map snd props) of
             Inl e \<Rightarrow> Inl e
           | Inr vs \<Rightarrow>
               (case sequence children of
                  Inl e \<Rightarrow> Inl e
                | Inr cs \<Rightarrow> Inr (Elem tag (zip (map fst props) vs) cs))))"

text \<open>An identifier in a module that binds the names \<open>scope\<close>: as an element type, and as
  a value (\<open>v\<close> is the value the import would bind it to).\<close>

definition bound :: "string list \<Rightarrow> string \<Rightarrow> error + unit" where
  "bound scope x = (if x \<in> set scope then Inr () else Inl (ReferenceError x))"

definition ident :: "string list \<Rightarrow> string \<Rightarrow> jsval \<Rightarrow> error + jsval" where
  "ident scope x v = (if x \<in> set scope then Inr v else Inl (ReferenceError x))"

text \<open>\<^verbatim>\<open>obj.k\<close> for an expression \<open>obj\<close>.\<close>

definition member :: "error + jsval \<Rightarrow> string \<Rightarrow> error + jsval" where
  "member obj k =
     (case obj of
        Inl e \<Rightarrow> Inl e
      | Inr v \<Rightarrow> if v = VUndefined then Inl (TypeError k) else Inr (get v k))"

text \<open>A host element (a lower-case tag) and a component with props that are values.\<close>

definition host :: "string \<Rightarrow> (string \<times> jsval) list \<Rightarrow> (error + node) list \<Rightarrow> error + node" where
  "host tag props children = jsx (Inr ()) tag (map (\<lambda>(k, v). (k, Inr v)) props) children"

definition component ::
  "string list \<Rightarrow> string \<Rightarrow> (string \<times> jsval) list \<Rightarrow> (error + node) list \<Rightarrow> error + node" where
  "component scope x props children =
     jsx (bound scope x) x (map (\<lambda>(k, v). (k, Inr v)) props) children"

text \<open>The conditionals \<^verbatim>\<open>s && e\<close> and \<^verbatim>\<open>o && e\<close>, whose right operand is evaluated only
  when the left one is truthy.\<close>

definition and_str_eval :: "jsstring option \<Rightarrow> (jsstring \<Rightarrow> error + node) \<Rightarrow> error + node" where
  "and_str_eval s f =
     (case s of None \<Rightarrow> Inr (Val VUndefined) | Some t \<Rightarrow> if t = [] then Inr (Txt []) else f t)"

definition and_obj_eval :: "'a option \<Rightarrow> ('a \<Rightarrow> error + node) \<Rightarrow> error + node" where
  "and_obj_eval x f = (case x of None \<Rightarrow> Inr (Val VUndefined) | Some v \<Rightarrow> f v)"

text \<open>\<^verbatim>\<open>a || b\<close> for two optional strings.\<close>

definition or_str :: "jsstring option \<Rightarrow> jsstring option \<Rightarrow> jsstring option" where
  "or_str a b = (case a of None \<Rightarrow> b | Some s \<Rightarrow> if s = [] then b else Some s)"

section \<open>HeroSectionSplit (src/components/sections/variants/hero-split.tsx)\<close>

text \<open>The names the module binds: its imports from framer-motion, the button, the animation
  presets and lucide-react, and the component it declares.\<close>

definition hero_split_scope :: "string list" where
  "hero_split_scope =
     [''motion'', ''Button'', ''fadeInLeft'', ''fadeInRight'', ''viewportOptions'',
      ''ArrowRight'', ''Play'', ''HeroSectionSplit'']"

datatype ImagePosition = PosLeft | PosRight

text \<open>The parameter \<open>imagePosition\<close> has the default \<^verbatim>\<open>"right"\<close>.  The constants
  \<open>textContent\<close> and \<open>imageContent\<close> are evaluated in this order, before the markup that
  is returned.\<close>

definition HeroSectionSplit ::
  "jsstring option \<Rightarrow> jsstring \<Rightarrow> jsstring \<Rightarrow> Cta \<Rightarrow> Cta option \<Rightarrow> jsstring option \<Rightarrow>
   ImagePosition option \<Rightarrow> error + node" where
  "HeroSectionSplit badge title description primaryCta secondaryCta image_prop imagePosition_prop =
     (let imagePosition = (case imagePosition_prop of None \<Rightarrow> PosRight | Some p \<Rightarrow> p);
          textContent =
            jsx (bound hero_split_scope ''motion'') ''motion.div''
             [(''variants'', ident hero_split_scope ''fadeInLeft'' fadeInLeft),
              (''initial'', Inr (lit ''hidden'')),
              (''whileInView'', Inr (lit ''visible'')),
              (''viewport'', ident hero_split_scope ''viewportOptions'' viewportOptions),
              (''transition'', member (ident hero_split_scope ''transitions'' transitions) ''default''),
              (''className'', Inr (lit ''flex flex-col justify-center''))]
             [and_str_eval badge (\<lambda>badge.
                host ''div'' [(''className'', lit ''mb-6 inline-block'')]
                 [host ''span''
                   [(''className'', lit ''inline-flex items-center rounded-full border border-primary/20 bg-primary/10 px-4 py-1.5 text-sm font-medium text-primary'')]
                   [Inr (Txt badge)]]),
              host ''h1''
               [(''className'', lit ''mb-6 text-4xl font-bold tracking-tight sm:text-5xl lg:text-6xl'')]
               [Inr (Txt title)],
              host ''p'' [(''className'', lit ''mb-8 text-lg text-muted-foreground sm:text-xl'')]
               [Inr (Txt description)],
              host ''div'' [(''className'', lit ''flex flex-col gap-4 sm:flex-row'')]
               [component hero_split_scope ''Button''
                 [(''asChild'', VBool True), (''size'', lit ''lg''), (''className'', lit ''text-base'')]
                 [host ''a'' [(''href'', VStr (cta_href primaryCta))]
                   [Inr (Txt (cta_text primaryCta)),
                    component hero_split_scope ''ArrowRight''
                     [(''className'', lit ''ml-2 size-4'')] []]],
                and_obj_eval secondaryCta (\<lambda>secondaryCta.
                  component hero_split_scope ''Button''
                   [(''asChild'', VBool True), (''variant'', lit ''outline''),
                    (''size'', lit ''lg''), (''className'', lit ''text-base'')]
                   [host ''a'' [(''href'', VStr (cta_href secondaryCta))]
                     [component hero_split_scope ''Play''
                       [(''className'', lit ''mr-2 size-4'')] [],
                      Inr (Txt (cta_text secondaryCta))]])]]
      in
      case textContent of
        Inl e \<Rightarrow> Inl e
      | Inr textContent \<Rightarrow>
          (case
             and_str_eval image_prop (\<lambda>image_src.
               jsx (bound hero_split_scope ''motion'') ''motion.div''
                [(''variants'', ident hero_split_scope ''fadeInRight'' fadeInRight),
                 (''initial'', Inr (lit ''hidden'')),
                 (''whileInView'', Inr (lit ''visible'')),
                 (''viewport'', ident hero_split_scope ''viewportOptions'' viewportOptions),
                 (''transition'', member (ident hero_split_scope ''transitions'' transitions) ''smooth''),
                 (''className'', Inr (lit ''flex items-center justify-center''))]
                [host ''div''
                  [(''className'', lit ''relative rounded-xl border bg-card shadow-2xl overflow-hidden'')]
                  [host ''img''
                    [(''src'', VStr image_src), (''alt'', lit ''Hero''),
                     (''className'', lit ''w-full h-auto'')]
                    []]])
           of
             Inl e \<Rightarrow> Inl e
           | Inr imageContent \<Rightarrow>
               host ''section'' [(''className'', lit ''relative py-20 sm:py-32'')]
                [host ''div'' [(''className'', lit ''container mx-auto px-4'')]
                  [host ''div''
                    [(''className'', lit ''grid gap-12 lg:grid-cols-2 lg:gap-16 items-center'')]
                    [if imagePosition = PosLeft
                     then host ''Fragment'' [] [Inr imageContent, Inr textContent]
                     else host ''Fragment'' [] [Inr textContent, Inr imageContent]]]]))"

section \<open>FooterMega (footer-mega, unnamed/part_005)\<close>

text \<open>The interface \<open>FooterLink\<close> has the fields of \<open>NavLink\<close>.\<close>

type_synonym FooterLink = NavLink

record FooterColumn =
  title :: jsstring
  links :: "FooterLink list"

record SocialLinks =
  github :: "jsstring option"
  twitter :: "jsstring option"
  linkedin :: "jsstring option"
  youtube :: "jsstring option"

text \<open>The names the module binds: the button, the separator, the four icons it imports
  from lucide-react, and the component it declares.\<close>

definition footer_mega_scope :: "string list" where
  "footer_mega_scope =
     [''Button'', ''Separator'', ''Github'', ''Twitter'', ''Linkedin'', ''Youtube'', ''FooterMega'']"

text \<open>The last argument is the year that \<^verbatim>\<open>new Date().getFullYear()\<close> returns.\<close>

definition FooterMega ::
  "jsstring \<Rightarrow> jsstring option \<Rightarrow> jsstring option \<Rightarrow> FooterColumn list \<Rightarrow> SocialLinks option \<Rightarrow>
   jsstring option \<Rightarrow> jsstring option \<Rightarrow> int \<Rightarrow> error + node" where
  "FooterMega companyName description tagline columns socialLinks contactEmail address currentYear =
     host ''footer'' [(''className'', lit ''border-t bg-background'')]
      [host ''div'' [(''className'', lit ''container mx-auto px-4 py-16 sm:py-20'')]
        [host ''div'' [(''className'', lit ''grid gap-12 lg:grid-cols-5 mb-12'')]
          [host ''div'' [(''className'', lit ''lg:col-span-2'')]
            [host ''h3'' [(''className'', lit ''text-2xl font-bold mb-3'')] [Inr (Txt companyName)],
             and_str_eval tagline (\<lambda>tagline.
               host ''p'' [(''className'', lit ''text-sm font-medium text-primary mb-3'')]
                [Inr (Txt tagline)]),
             and_str_eval description (\<lambda>description.
               host ''p'' [(''className'', lit ''text-sm text-muted-foreground mb-6 max-w-md'')]
                [Inr (Txt description)]),
             and_str_eval (or_str contactEmail address) (\<lambda>shown.
               host ''div'' [(''className'', lit ''space-y-3 mb-6'')]
                [and_str_eval contactEmail (\<lambda>contactEmail.
                   host ''div'' [(''className'', lit ''flex items-center gap-2 text-sm'')]
                    [component footer_mega_scope ''Mail''
                      [(''className'', lit ''size-4 text-muted-foreground'')] [],
                     host ''a''
                      [(''href'', VStr (js ''mailto:'' @ contactEmail)),
                       (''className'', lit ''text-muted-foreground hover:text-primary transition-colors'')]
                      [Inr (Txt contactEmail)]]),
                 and_str_eval address (\<lambda>address.
                   host ''p'' [(''className'', lit ''text-sm text-muted-foreground'')]
                    [Inr (Txt address)])]),
             and_obj_eval socialLinks (\<lambda>socialLinks.
               host ''div'' [(''className'', lit ''flex gap-2'')]
                [and_str_eval (github socialLinks) (\<lambda>url.
                   component footer_mega_scope ''Button''
                    [(''variant'', lit ''ghost''), (''size'', lit ''icon''), (''asChild'', VBool True)]
                    [host ''a''
                      [(''href'', VStr url), (''target'', lit ''_blank''),
                       (''rel'', lit ''noopener noreferrer''), (''aria-label'', lit ''GitHub'')]
                      [component footer_mega_scope ''Github'' [(''className'', lit ''size-5'')] []]]),
                 and_str_eval (twitter socialLinks) (\<lambda>url.
                   component footer_mega_scope ''Button''
                    [(''variant'', lit ''ghost''), (''size'', lit ''icon''), (''asChild'', VBool True)]
                    [host ''a''
                      [(''href'', VStr url), (''target'', lit ''_blank''),
                       (''rel'', lit ''noopener noreferrer''), (''aria-label'', lit ''Twitter'')]
                      [component footer_mega_scope ''Twitter'' [(''className'', lit ''size-5'')] []]]),
                 and_str_eval (linkedin socialLinks) (\<lambda>url.
                   component footer_mega_scope ''Button''
                    [(''variant'', lit ''ghost''), (''size'', lit ''icon''), (''asChild'', VBool True)]
                    [host ''a''
                      [(''href'', VStr url), (''target'', lit ''_blank''),
                       (''rel'', lit ''noopener noreferrer''), (''aria-label'', lit ''LinkedIn'')]
                      [component footer_mega_scope ''Linkedin'' [(''className'', lit ''size-5'')] []]]),
                 and_str_eval (youtube socialLinks) (\<lambda>url.
                   component footer_mega_scope ''Button''
                    [(''variant'', lit ''ghost''), (''size'', lit ''icon''), (''asChild'', VBool True)]
                    [host ''a''
                      [(''href'', VStr url), (''target'', lit ''_blank''),
                       (''rel'', lit ''noopener noreferrer''), (''aria-label'', lit ''YouTube'')]
                      [component footer_mega_scope ''Youtube'' [(''className'', lit ''size-5'')] []]])])],
           case sequence (map (\<lambda>(index, column).
               host ''div'' [(''key'', idx index)]
                [host ''h4''
                  [(''className'', lit ''font-semibold mb-4 text-sm uppercase tracking-wider'')]
                  [Inr (Txt (title column))],
                 host ''ul'' [(''className'', lit ''space-y-3'')]
                  [case sequence (map (\<lambda>(linkIndex, link).
                      host ''li'' [(''key'', idx linkIndex)]
                       [host ''a''
                         [(''href'', VStr (href link)),
                          (''className'', lit ''text-sm text-muted-foreground hover:text-primary transition-colors'')]
                         [Inr (Txt (label link))]])
                     (enumerate 0 (links column)))
                   of Inl e \<Rightarrow> Inl e | Inr items \<Rightarrow> Inr (Arr items)]])
              (enumerate 0 columns))
           of Inl e \<Rightarrow> Inl e | Inr cols \<Rightarrow> Inr (Arr cols)],
         component footer_mega_scope ''Separator'' [(''className'', lit ''mb-8'')] [],
         host ''div''
          [(''className'', lit ''flex flex-col gap-4 sm:flex-row sm:justify-between sm:items-center'')]
          [host ''p'' [(''className'', lit ''text-sm text-muted-foreground'')]
            [Inr (Txt [0xA9, 0x20]), Inr (Val (VNum (Fin (of_int currentYear)))), Inr (Lit '' ''),
             Inr (Txt companyName), Inr (Lit ''. All rights reserved.'')],
           host ''div'' [(''className'', lit ''flex flex-wrap gap-6'')]
            [host ''a''
              [(''href'', lit ''/privacy''),
               (''className'', lit ''text-sm text-muted-foreground hover:text-primary transition-colors'')]
              [Inr (Lit ''Privacy Policy'')],
             host ''a''
              [(''href'', lit ''/terms''),
               (''className'', lit ''text-sm text-muted-foreground hover:text-primary transition-colors'')]
              [Inr (Lit ''Terms of Service'')],
             host ''a''
              [(''href'', lit ''/cookies''),
               (''className'', lit ''text-sm text-muted-foreground hover:text-primary transition-colors'')]
              [Inr (Lit ''Cookie Policy'')],
             host ''a''
              [(''href'', lit ''/accessibility''),
               (''className'', lit ''text-sm text-muted-foreground hover:text-primary transition-colors'')]
              [Inr (Lit ''Accessibility'')]]]]]"

section \<open>Reading rendered markup\<close>

text \<open>The elements of a tree that carry a given tag, in document order.\<close>

fun elems_named :: "string \<Rightarrow> node \<Rightarrow> node list" where
  "elems_named t (Elem u a cs) =
     (if u = t then [Elem u a cs] else []) @ concat (map (elems_named t) cs)"
| "elems_named t (Arr cs) = concat (map (elems_named t) cs)"
| "elems_named t (Val v) = []"

text \<open>The tag of the element at a path.\<close>

definition tag_at :: "nat list \<Rightarrow> node \<Rightarrow> string option" where
  "tag_at p n = (case node_at p n of Some (Elem t a cs) \<Rightarrow> Some t | _ \<Rightarrow> None)"

text \<open>The handlers a rendered tree offers to the user: every handler that is the value
  of a prop, in document order, but those of an element that is disabled.\<close>

definition value_handlers :: "jsval \<Rightarrow> action list" where
  "value_handlers v = (case v of VHandler h \<Rightarrow> [h] | _ \<Rightarrow> [])"

fun handlers :: "node \<Rightarrow> action list" where
  "handlers (Elem t a cs) =
     (if map_of a ''disabled'' = Some (VBool True) then []
      else concat (map (\<lambda>(k, v). value_handlers v) a))
     @ concat (map handlers cs)"
| "handlers (Arr cs) = concat (map handlers cs)"
| "handlers (Val v) = []"

text \<open>
  A run of the carousel: from the state \<open>cur\<close> the user fires the handlers \<open>as\<close> one after
  the other, each one offered by the tree rendered in the state it is fired in; the result
  is the last state, and \<open>None\<close> when a render throws or a handler is not offered.
\<close>

fun carousel_clicks ::
  "jsstring option \<Rightarrow> jsstring \<Rightarrow> jsstring option \<Rightarrow> Testimonial list \<Rightarrow> number \<Rightarrow>
   action list \<Rightarrow> number option" where
  "carousel_clicks b t d ts cur [] = Some cur"
| "carousel_clicks b t d ts cur (a # as) =
     (case TestimonialsSectionCarousel b t d ts cur of
        Inl e \<Rightarrow> None
      | Inr tree \<Rightarrow>
          if a \<in> set (handlers tree)
          then carousel_clicks b t d ts (carousel_update (length ts) a cur) as
          else None)"

text \<open>The children of the element or array at a path.\<close>

definition children_at :: "nat list \<Rightarrow> node \<Rightarrow> node list" where
  "children_at p n =
     (case node_at p n of Some (Arr cs) \<Rightarrow> cs | Some (Elem t a cs) \<Rightarrow> cs | _ \<Rightarrow> [])"

text \<open>The navigation link that an anchor element shows: its \<open>href\<close> and its text.\<close>

definition anchor_link :: "node \<Rightarrow> NavLink option" where
  "anchor_link n =
     (case n of
        Elem t a cs \<Rightarrow>
          (case (map_of a ''href'', cs) of
             (Some (VStr h), [Val (VStr l)]) \<Rightarrow>
               if t = ''a'' then Some \<lparr>label = l, href = h\<rparr> else None
           | _ \<Rightarrow> None)
      | _ \<Rightarrow> None)"

text \<open>A star icon counts as filled when its class names have the yellow fill.\<close>

definition star_filled :: "node \<Rightarrow> bool" where
  "star_filled n =
     (case n of
        Elem t a cs \<Rightarrow>
          t = ''Star'' \<and>
          (case map_of a ''className'' of
             Some (VStr c) \<Rightarrow> js_includes c (js ''fill-yellow-400'')
           | _ \<Rightarrow> False)
      | _ \<Rightarrow> False)"

text \<open>
  The specification's words for the avatar fallback: the space-separated words of a name
  are its maximal runs of code units other than the space, and the fallback text is the
  concatenation of the first code unit of each word.
\<close>

function words_of :: "jsstring \<Rightarrow> jsstring list" where
  "words_of [] = []"
| "words_of (c # cs) =
     (if c = 0x20 then words_of cs
      else takeWhile (\<lambda>u. u \<noteq> 0x20) (c # cs) # words_of (dropWhile (\<lambda>u. u \<noteq> 0x20) cs))"
  by pat_completeness auto
termination
  by (relation "measure length") (auto simp: le_imp_less_Suc length_dropWhile_le)

definition first_letters_of_words :: "jsstring \<Rightarrow> jsstring" where
  "first_letters_of_words n = concat (map (take 1) (words_of n))"

text \<open>Three testimonials, the first one that of the components' documentation.\<close>

definition sample_testimonials :: "Testimonial list" where
  "sample_testimonials =
     [\<lparr>name = js ''John Doe'', role = js ''CEO'', company = js ''TechCorp'', avatar = None,
        rating = Fin 5, content = js ''This product transformed our business...''\<rparr>,
      \<lparr>name = js ''Ana  de la Cruz'', role = js ''CTO'', company = js ''Initech'',
        avatar = Some (js ''/ana.png''), rating = Fin 3.5, content = js ''Solid.''\<rparr>,
      \<lparr>name = js ''Bo'', role = js ''PM'', company = js ''Orbit'', avatar = None,
        rating = Fin 7, content = js ''Fine.''\<rparr>]"

section \<open>Auxiliary facts\<close>

lemma concat_map_single: "concat (map (\<lambda>x. [h x]) xs) = map h xs"
  by (induction xs) simp_all

lemma real_mod_nat: "real (a mod b) = real a - real b * real (a div b)"
proof -
  have "b * (a div b) + a mod b = a" by simp
  then have "real (b * (a div b) + a mod b) = real a" by (rule arg_cong)
  then have "real b * real (a div b) + real (a mod b) = real a"
    by (simp only: of_nat_add of_nat_mult)
  then show ?thesis by linarith
qed

lemma num_rem_nat:
  assumes "0 < b"
  shows "num_rem (Fin (real a)) (Fin (real b)) = Fin (real (a mod b))"
proof -
  have "\<not> real a / real b < 0"
    by (simp add: not_less)
  then have "trunc (real a / real b) = int (a div b)"
    by (simp add: trunc_def floor_divide_of_nat_eq)
  with assms show ?thesis
    by (simp add: real_mod_nat)
qed

lemma at_index_nat: "i < length xs \<Longrightarrow> at_index xs (Fin (real i)) = Some (xs ! i)"
  by (simp add: at_index_def)

section \<open>Renders that throw\<close>

lemma footer_mega_without_email:
  "\<exists>tree. FooterMega (js ''Enterprise Corp'') None None [] None None None 2026 = Inr tree"
  by (simp add: FooterMega_def jsx_def host_def component_def bound_def and_str_eval_def
      and_obj_eval_def or_str_def footer_mega_scope_def js_def)

lemma carousel_without_testimonials:
  "TestimonialsSectionCarousel b t d [] (Fin 0) = Inl (TypeError ''rating'')"
  by (simp add: TestimonialsSectionCarousel_def at_index_def)

text \<open>
  C1, at the inputs where it fails.  HeroSectionSplit evaluates \<open>transitions.default\<close> while
  its module binds no \<open>transitions\<close>: every render throws a ReferenceError.  FooterMega
  evaluates \<open>Mail\<close>, which its module does not bind, when a contact e-mail is given: that
  render throws a ReferenceError.
\<close>

theorem missing_imports_throw:
  "HeroSectionSplit b t d primaryCta secondaryCta image_prop imagePosition =
     Inl (ReferenceError ''transitions'') \<and>
   FooterMega (js ''Enterprise Corp'') None None [] None (Some (js ''info@enterprise.com'')) None
     2026 = Inl (ReferenceError ''Mail'')"
  by (simp add: HeroSectionSplit_def FooterMega_def jsx_def host_def component_def bound_def
      ident_def member_def and_str_eval_def and_obj_eval_def or_str_def hero_split_scope_def
      footer_mega_scope_def js_def)

section \<open>The rating stars\<close>

lemma grid_stars_at:
  assumes "k < length ts"
  shows "node_at [0, 1, 0, k, 0, 0, 0, 0] (TestimonialsSection b t d ts) =
     Some (Arr (map (\<lambda>i.
        Elem ''Star''
          [(''key'', idx i),
           (''className'', VStr (js ''size-4 '' @
              (if num_less (Fin (real i)) (rating (ts ! k))
               then js ''fill-yellow-400 text-yellow-400''
               else js ''fill-muted text-muted'')))]
          [])
        [0..<5]))"
  using assms by (simp add: TestimonialsSection_def nth_enumerate_eq)

lemma star4_filled:
  "star_filled (Elem ''Star''
          [(''key'', idx i),
           (''className'', VStr (js ''size-4 '' @
              (if c then js ''fill-yellow-400 text-yellow-400''
               else js ''fill-muted text-muted'')))]
          []) = c"
  by (simp add: star_filled_def js_def)

lemma stars_count:
  "length (filter star_filled (map (\<lambda>i.
        Elem ''Star''
          [(''key'', idx i),
           (''className'', VStr (js ''size-4 '' @
              (if num_less (Fin (real i)) r
               then js ''fill-yellow-400 text-yellow-400''
               else js ''fill-muted text-muted'')))]
          [])
        [0..<5])) = length (filter (\<lambda>i. num_less (Fin (real i)) r) [0..<5])"
  by (simp only: filter_map length_map comp_def star4_filled)

lemma upt_5: "[0..<5] = [0, 1, 2, 3, 4]"
  by (simp add: upt_rec)

lemma count_integer:
  assumes "m \<le> 5"
  shows "length (filter (\<lambda>i. num_less (Fin (real i)) (Fin (real m))) [0..<5]) = m"
proof -
  from assms have "m = 0 \<or> m = 1 \<or> m = 2 \<or> m = 3 \<or> m = 4 \<or> m = 5"
    by arith
  then show ?thesis
    by (auto simp: upt_5)
qed

lemma count_above:
  assumes "num_less (Fin 5) r"
  shows "length (filter (\<lambda>i. num_less (Fin (real i)) r) [0..<5]) = 5"
  using assms by (cases r) (auto simp: upt_5)

lemma count_negative:
  assumes "num_less r (Fin 0)"
  shows "length (filter (\<lambda>i. num_less (Fin (real i)) r) [0..<5]) = 0"
  using assms by (cases r) (auto simp: upt_5)

text \<open>
  C7.  TestimonialsSection validates no rating: for every testimonial it renders an array of
  exactly 5 star icons, of which star \<open>i\<close> (from 0) is filled if and only if \<open>i < rating\<close>;
  hence a rating that is an integer from 0 to 5 fills exactly that many stars, a rating
  above 5 fills all 5 and a negative rating fills none.  The render is a total function and
  compares with the rating as it is given.
\<close>

theorem testimonial_stars:
  assumes "k < length testimonials"
  shows "\<exists>stars.
     node_at [0, 1, 0, k, 0, 0, 0, 0] (TestimonialsSection b t d testimonials) = Some (Arr stars) \<and>
     length stars = 5 \<and>
     (\<forall>i<5. tag_at [] (stars ! i) = Some ''Star'' \<and>
        star_filled (stars ! i) = num_less (Fin (real i)) (rating (testimonials ! k))) \<and>
     (\<forall>m\<le>5. rating (testimonials ! k) = Fin (real m) \<longrightarrow>
        length (filter star_filled stars) = m) \<and>
     (num_less (Fin 5) (rating (testimonials ! k)) \<longrightarrow>
        length (filter star_filled stars) = 5) \<and>
     (num_less (rating (testimonials ! k)) (Fin 0) \<longrightarrow>
        length (filter star_filled stars) = 0)"
proof -
  let ?r = "rating (testimonials ! k)"
  let ?stars = "map (\<lambda>i.
        Elem ''Star''
          [(''key'', idx i),
           (''className'', VStr (js ''size-4 '' @
              (if num_less (Fin (real i)) ?r
               then js ''fill-yellow-400 text-yellow-400''
               else js ''fill-muted text-muted'')))]
          [])
        [0..<5]"
  have at: "node_at [0, 1, 0, k, 0, 0, 0, 0] (TestimonialsSection b t d testimonials) =
      Some (Arr ?stars)"
    using assms by (rule grid_stars_at)
  have len: "length ?stars = 5"
    by simp
  have each: "tag_at [] (?stars ! i) = Some ''Star'' \<and>
      star_filled (?stars ! i) = num_less (Fin (real i)) ?r" if "i < 5" for i
    using that by (simp add: tag_at_def star4_filled del: upt_Suc)
  have count: "length (filter star_filled ?stars) =
      length (filter (\<lambda>i. num_less (Fin (real i)) ?r) [0..<5])"
    by (rule stars_count)
  have c1: "length (filter star_filled ?stars) = m" if "m \<le> 5" and "?r = Fin (real m)" for m
    using that count count_integer[of m] by simp
  have c2: "length (filter star_filled ?stars) = 5" if "num_less (Fin 5) ?r"
    using that count count_above[of ?r] by simp
  have c3: "length (filter star_filled ?stars) = 0" if "num_less ?r (Fin 0)"
    using that count count_negative[of ?r] by simp
  from at len each c1 c2 c3 show ?thesis
    by blast
qed

theorem testimonial_stars_witness:
  "2 < length sample_testimonials \<and>
   (\<exists>stars.
      node_at [0, 1, 0, 2, 0, 0, 0, 0]
        (TestimonialsSection None (js ''What Our Customers Say'') None sample_testimonials) =
        Some (Arr stars) \<and>
      length stars = 5 \<and> length (filter star_filled stars) = 5)"
proof -
  have k: "2 < length sample_testimonials"
    by (simp add: sample_testimonials_def)
  have r: "num_less (Fin 5) (rating (sample_testimonials ! 2))"
    by (simp add: sample_testimonials_def)
  from testimonial_stars [OF k, of None "js ''What Our Customers Say''" None] r k
  show ?thesis
    by blast
qed

section \<open>The avatar fallback\<close>

lemma js_join_empty:
  "js_join [] xs = concat (map (\<lambda>x. case x of None \<Rightarrow> [] | Some s \<Rightarrow> s) xs)"
  by (induction "[] :: jsstring" xs rule: js_join.induct) simp_all

lemma js_split_takeWhile:
  "js_split sep cs =
     takeWhile (\<lambda>u. u \<noteq> sep) cs #
     (case dropWhile (\<lambda>u. u \<noteq> sep) cs of [] \<Rightarrow> [] | x # rest \<Rightarrow> js_split sep rest)"
  by (induction cs) (auto split: list.splits)

lemma words_of_split: "filter (\<lambda>w. w \<noteq> []) (js_split 0x20 n) = words_of n"
proof (induction n rule: words_of.induct)
  case 1
  then show ?case by simp
next
  case (2 c cs)
  show ?case
  proof (cases "c = 0x20")
    case True
    with 2 show ?thesis by simp
  next
    case False
    have "filter (\<lambda>w. w \<noteq> []) (js_split 0x20 (c # cs)) =
        takeWhile (\<lambda>u. u \<noteq> 0x20) (c # cs) #
        filter (\<lambda>w. w \<noteq> [])
          (case dropWhile (\<lambda>u. u \<noteq> 0x20) cs of [] \<Rightarrow> [] | x # rest \<Rightarrow> js_split 0x20 rest)"
      using False by (subst js_split_takeWhile) simp
    also have "filter (\<lambda>w. w \<noteq> [])
          (case dropWhile (\<lambda>u. u \<noteq> 0x20) cs of [] \<Rightarrow> [] | x # rest \<Rightarrow> js_split 0x20 rest) =
        filter (\<lambda>w. w \<noteq> []) (js_split 0x20 (dropWhile (\<lambda>u. u \<noteq> 0x20) cs))"
    proof (cases "dropWhile (\<lambda>u. u \<noteq> 0x20) cs")
      case Nil
      show ?thesis unfolding Nil by simp
    next
      case (Cons x rest)
      then have "x = 0x20"
        using hd_dropWhile[of "\<lambda>u. u \<noteq> 0x20" cs] by auto
      then show ?thesis unfolding Cons by simp
    qed
    also have "\<dots> = words_of (dropWhile (\<lambda>u. u \<noteq> 0x20) cs)"
      using False 2 by simp
    finally show ?thesis
      using False by simp
  qed
qed

lemma concat_take1_filter:
  "concat (map (take 1) (filter (\<lambda>w. w \<noteq> []) xs)) = concat (map (take 1) xs)"
  by (induction xs) auto

lemma initials_expression:
  "js_join [] (map (\<lambda>n. char_at_0 n) (js_split 0x20 n)) = first_letters_of_words n"
proof -
  have "js_join [] (map (\<lambda>n. char_at_0 n) (js_split 0x20 n)) =
      concat (map (take 1) (js_split 0x20 n))"
    unfolding js_join_empty map_map comp_def
    by (rule arg_cong[where f = concat], rule map_cong) (auto simp: char_at_0_def split: list.splits)
  also have "\<dots> = concat (map (take 1) (filter (\<lambda>w. w \<noteq> []) (js_split 0x20 n)))"
    by (simp only: concat_take1_filter)
  finally show ?thesis
    by (simp only: words_of_split first_letters_of_words_def)
qed

lemma fallback_expression_of_word:
  "first_letters_of_words (js ''John Doe'') = js ''JD''"
  by (simp add: first_letters_of_words_def js_def)

text \<open>
  C10.  For every testimonial, with or without an avatar image, the text of the avatar
  fallback is the concatenation of the first character of each space-separated word of the
  testimonial's name, in the grid, in the masonry and in the carousel component alike.
\<close>

theorem avatar_fallback_text:
  assumes "k < length testimonials"
  shows "tag_at [0, 1, 0, k, 0, 0, 2, 0, 1] (TestimonialsSection b t d testimonials) =
      Some ''AvatarFallback'' \<and>
    children_at [0, 1, 0, k, 0, 0, 2, 0, 1] (TestimonialsSection b t d testimonials) =
      [Txt (first_letters_of_words (name (testimonials ! k)))] \<and>
    tag_at [0, 1, 0, k, 0, 0, 2, 0, 1] (TestimonialsSectionMasonry b t d testimonials) =
      Some ''AvatarFallback'' \<and>
    children_at [0, 1, 0, k, 0, 0, 2, 0, 1] (TestimonialsSectionMasonry b t d testimonials) =
      [Txt (first_letters_of_words (name (testimonials ! k)))] \<and>
    (\<exists>tree. TestimonialsSectionCarousel b t d testimonials (Fin (real k)) = Inr tree \<and>
       tag_at [0, 1, 0, 0, 0, 0, 3, 0, 1] tree = Some ''AvatarFallback'' \<and>
       children_at [0, 1, 0, 0, 0, 0, 3, 0, 1] tree =
         [Txt (first_letters_of_words (name (testimonials ! k)))])"
proof -
  have grid: "tag_at [0, 1, 0, k, 0, 0, 2, 0, 1] (TestimonialsSection b t d testimonials) =
      Some ''AvatarFallback'' \<and>
    children_at [0, 1, 0, k, 0, 0, 2, 0, 1] (TestimonialsSection b t d testimonials) =
      [Txt (first_letters_of_words (name (testimonials ! k)))]"
    using assms
    by (simp add: TestimonialsSection_def tag_at_def children_at_def nth_enumerate_eq
        initials_expression)
  have masonry: "tag_at [0, 1, 0, k, 0, 0, 2, 0, 1] (TestimonialsSectionMasonry b t d testimonials) =
      Some ''AvatarFallback'' \<and>
    children_at [0, 1, 0, k, 0, 0, 2, 0, 1] (TestimonialsSectionMasonry b t d testimonials) =
      [Txt (first_letters_of_words (name (testimonials ! k)))]"
    using assms
    by (simp add: TestimonialsSectionMasonry_def tag_at_def children_at_def nth_enumerate_eq
        initials_expression)
  have carousel: "\<exists>tree. TestimonialsSectionCarousel b t d testimonials (Fin (real k)) = Inr tree \<and>
       tag_at [0, 1, 0, 0, 0, 0, 3, 0, 1] tree = Some ''AvatarFallback'' \<and>
       children_at [0, 1, 0, 0, 0, 0, 3, 0, 1] tree =
         [Txt (first_letters_of_words (name (testimonials ! k)))]"
    using assms
    by (simp add: TestimonialsSectionCarousel_def at_index_nat tag_at_def children_at_def
        initials_expression)
  from grid masonry carousel show ?thesis
    by blast
qed

theorem avatar_fallback_text_witness:
  "0 < length sample_testimonials \<and>
   children_at [0, 1, 0, 0, 0, 0, 2, 0, 1]
     (TestimonialsSection None (js ''What Our Customers Say'') None sample_testimonials) =
     [Lit ''JD''] \<and>
   children_at [0, 1, 0, 0, 0, 0, 2, 0, 1]
     (TestimonialsSectionMasonry None (js ''What Our Customers Say'') None sample_testimonials) =
     [Lit ''JD'']"
proof -
  have k: "0 < length sample_testimonials"
    by (simp add: sample_testimonials_def)
  have n: "first_letters_of_words (name (sample_testimonials ! 0)) = js ''JD''"
    by (simp add: sample_testimonials_def fallback_expression_of_word)
  from avatar_fallback_text [OF k, of None "js ''What Our Customers Say''" None] k
  show ?thesis
    unfolding n by blast
qed

section \<open>The FAQ search\<close>

text \<open>The name Odysseus in Greek capitals: of its three capital sigmas only the last one,
  which ends the word, lower-cases to the final sigma.\<close>

lemma toLowerCase_final_sigma:
  "toLowerCase [0x39F, 0x394, 0x3A5, 0x3A3, 0x3A3, 0x395, 0x3A5, 0x3A3] =
     Some [0x3BF, 0x3B4, 0x3C5, 0x3C3, 0x3C3, 0x3B5, 0x3C5, 0x3C2]"
  by (simp add: toLowerCase_def kind_of_def)

text \<open>Where the model knows the filtered list, it is an order-preserving sublist of the
  FAQs, and the FAQs themselves for the empty search string.\<close>

lemma filter_option_subseq: "filter_option p xs = Some ys \<Longrightarrow> subseq ys xs"
  by (induction xs arbitrary: ys) (auto split: option.splits if_splits)

lemma filteredFaqs_subseq: "filteredFaqs faqs q = Some fs \<Longrightarrow> subseq fs faqs"
  unfolding filteredFaqs_def by (rule filter_option_subseq)

lemma js_includes_Nil: "js_includes s []"
  by (cases s) simp_all

lemma filteredFaqs_empty_query: "filteredFaqs faqs [] = Some fs \<Longrightarrow> fs = faqs"
  unfolding filteredFaqs_def
  by (induction faqs arbitrary: fs)
    (auto simp: toLowerCase_def js_includes_Nil split: option.splits if_splits)

text \<open>
  C2, at an input where it fails.  The search string is Alpha Sigma in Greek capitals.  The
  first question, alpha sigma alpha in small letters, contains it up to case, and the
  second question, Alpha Sigma Alpha in capitals, contains it as it is.  The filter keeps
  neither: the sigma ends the search string and is lower-cased to the final sigma, which
  occurs in neither lower-cased question.  So FaqSectionSearchable renders no accordion
  item and, where the accordion would stand, the "no results" message.
\<close>

theorem faq_search_misses_match:
  "sublist [0x3B1, 0x3C3] [0x3B1, 0x3C3, 0x3B1 :: 16 word] \<and>
   sublist [0x391, 0x3A3] [0x391, 0x3A3, 0x391 :: 16 word] \<and>
   filteredFaqs
     [\<lparr>question = [0x3B1, 0x3C3, 0x3B1], answer = []\<rparr>,
      \<lparr>question = [0x391, 0x3A3, 0x391], answer = []\<rparr>]
     [0x391, 0x3A3] = Some [] \<and>
   map_option (elems_named ''AccordionItem'')
     (FaqSectionSearchable None (js ''How can we help?'') None
        [\<lparr>question = [0x3B1, 0x3C3, 0x3B1], answer = []\<rparr>,
         \<lparr>question = [0x391, 0x3A3, 0x391], answer = []\<rparr>]
        [0x391, 0x3A3]) = Some [] \<and>
   Option.bind
     (FaqSectionSearchable None (js ''How can we help?'') None
        [\<lparr>question = [0x3B1, 0x3C3, 0x3B1], answer = []\<rparr>,
         \<lparr>question = [0x391, 0x3A3, 0x391], answer = []\<rparr>]
        [0x391, 0x3A3])
     (node_at [0, 2, 0]) =
     Some (Elem ''div'' [(''className'', lit ''text-center py-12'')]
            [Elem ''p'' [(''className'', lit ''text-muted-foreground text-lg'')]
              [Txt (js ''No results found for '' @ [0x22]), Txt [0x391, 0x3A3], Txt [0x22]],
             Elem ''p'' [(''className'', lit ''text-sm text-muted-foreground mt-2'')]
              [Lit ''Try searching with different keywords'']])"
proof -
  have filtered: "filteredFaqs
     [\<lparr>question = [0x3B1, 0x3C3, 0x3B1], answer = []\<rparr>,
      \<lparr>question = [0x391, 0x3A3, 0x391], answer = []\<rparr>]
     [0x391, 0x3A3] = Some []"
    by (simp add: filteredFaqs_def toLowerCase_def kind_of_def)
  have first: "sublist [0x3B1, 0x3C3] [0x3B1, 0x3C3, 0x3B1 :: 16 word]"
    using sublist_append_rightI[of "[0x3B1, 0x3C3 :: 16 word]" "[0x3B1]"] by simp
  have second: "sublist [0x391, 0x3A3] [0x391, 0x3A3, 0x391 :: 16 word]"
    using sublist_append_rightI[of "[0x391, 0x3A3 :: 16 word]" "[0x391]"] by simp
  from first second filtered show ?thesis
    by (simp add: FaqSectionSearchable_def and_str_def)
qed

text \<open>
  C9, at an input where it fails.  The question is alpha sigma alpha in small letters.  The
  search string Alpha Sigma, in capitals, lower-cases with a final sigma and the filter
  excludes the question; the search string Alpha Sigma Alpha, of which the former is a
  prefix, lower-cases to the question itself and the filter admits it.  The longer query
  adds an entry that its prefix excluded.
\<close>

theorem faq_search_longer_query_adds:
  "prefix [0x391, 0x3A3] [0x391, 0x3A3, 0x391 :: 16 word] \<and>
   filteredFaqs [\<lparr>question = [0x3B1, 0x3C3, 0x3B1], answer = []\<rparr>] [0x391, 0x3A3] = Some [] \<and>
   filteredFaqs [\<lparr>question = [0x3B1, 0x3C3, 0x3B1], answer = []\<rparr>] [0x391, 0x3A3, 0x391] =
     Some [\<lparr>question = [0x3B1, 0x3C3, 0x3B1], answer = []\<rparr>] \<and>
   map_option (tag_at [0, 2, 0])
     (FaqSectionSearchable None (js ''How can we help?'') None
        [\<lparr>question = [0x3B1, 0x3C3, 0x3B1], answer = []\<rparr>] [0x391, 0x3A3]) =
     Some (Some ''div'') \<and>
   map_option (tag_at [0, 2, 0])
     (FaqSectionSearchable None (js ''How can we help?'') None
        [\<lparr>question = [0x3B1, 0x3C3, 0x3B1], answer = []\<rparr>] [0x391, 0x3A3, 0x391]) =
     Some (Some ''Accordion'')"
proof -
  have short: "filteredFaqs [\<lparr>question = [0x3B1, 0x3C3, 0x3B1], answer = []\<rparr>] [0x391, 0x3A3] =
      Some []"
    by (simp add: filteredFaqs_def toLowerCase_def kind_of_def)
  have long: "filteredFaqs [\<lparr>question = [0x3B1, 0x3C3, 0x3B1], answer = []\<rparr>]
      [0x391, 0x3A3, 0x391] = Some [\<lparr>question = [0x3B1, 0x3C3, 0x3B1], answer = []\<rparr>]"
    by (simp add: filteredFaqs_def toLowerCase_def kind_of_def)
  from short long show ?thesis
    by (simp add: FaqSectionSearchable_def tag_at_def)
qed

section \<open>The centered navigation bar\<close>

lemma ceil_half_eq: "ceil_half n = (n + 1) div 2"
proof -
  obtain k where "n = 2 * k \<or> n = 2 * k + 1"
    by (metis add.commute mult_2 odd_two_times_div_two_succ even_two_times_div_two)
  then show ?thesis
  proof
    assume "n = 2 * k"
    then show ?thesis
      by (simp add: ceil_half_def)
  next
    assume n: "n = 2 * k + 1"
    have "\<lceil>(1 + 2 * real k) / 2\<rceil> = int k + 1"
      by (rule ceiling_unique) (simp_all add: field_simps)
    then have "nat \<lceil>(1 + 2 * real k) / 2\<rceil> = Suc k"
      by simp
    with n show ?thesis
      by (simp add: ceil_half_def)
  qed
qed

lemma floor_half_eq: "nat \<lfloor>real n / 2\<rfloor> = n div 2"
proof -
  have "\<lfloor>real n / real 2\<rfloor> = int (n div 2)"
    by (rule floor_divide_of_nat_eq)
  then show ?thesis
    by simp
qed

lemma navbar_left:
  "children_at [0, 0, 0] (NavbarCentered brand ls None None c isOpen) =
     map (\<lambda>(index, link).
        Elem ''a''
         [(''key'', idx index),
          (''href'', VStr (href link)),
          (''className'', lit ''text-sm font-medium text-muted-foreground transition-colors hover:text-primary'')]
         [Txt (label link)])
       (enumerate 0 (take (ceil_half (length ls)) ls))"
  by (simp add: NavbarCentered_def children_at_def Let_def)

lemma navbar_right:
  "children_at [0, 2, 0] (NavbarCentered brand ls None None c isOpen) =
     map (\<lambda>(index, link).
        Elem ''a''
         [(''key'', idx index),
          (''href'', VStr (href link)),
          (''className'', lit ''text-sm font-medium text-muted-foreground transition-colors hover:text-primary'')]
         [Txt (label link)])
       (enumerate 0 (drop (ceil_half (length ls)) ls))"
  by (simp add: NavbarCentered_def children_at_def Let_def)

lemma navbar_mobile:
  "children_at [0, 3, 1, 0, 0] (NavbarCentered brand ls None None c isOpen) =
     map (\<lambda>(index, link).
        Elem ''a''
         [(''key'', idx index),
          (''href'', VStr (href link)),
          (''onClick'', VHandler (SetIsOpen False)),
          (''className'', lit ''text-lg font-medium text-muted-foreground transition-colors hover:text-primary'')]
         [Txt (label link)])
       (enumerate 0 ls)"
  by (simp add: NavbarCentered_def children_at_def Let_def)

lemma anchor_links_desktop:
  "map anchor_link (map (\<lambda>(index, link).
        Elem ''a''
         [(''key'', idx index),
          (''href'', VStr (href link)),
          (''className'', cls)]
         [Txt (label link)])
       (enumerate k (xs :: NavLink list))) = map Some xs"
  by (induction xs arbitrary: k) (simp_all add: anchor_link_def)

lemma anchor_links_mobile:
  "map anchor_link (map (\<lambda>(index, link).
        Elem ''a''
         [(''key'', idx index),
          (''href'', VStr (href link)),
          (''onClick'', h),
          (''className'', cls)]
         [Txt (label link)])
       (enumerate k (xs :: NavLink list))) = map Some xs"
  by (induction xs arbitrary: k) (simp_all add: anchor_link_def)

text \<open>
  C3.  For every \<open>links\<close> array of length \<open>n\<close>, with \<open>leftLinks\<close> and \<open>rightLinks\<close> omitted,
  the left group that NavbarCentered renders is the first \<open>ceil(n/2)\<close> links, the right group
  is the remaining \<open>floor(n/2)\<close> links, and the mobile menu, which renders the left group
  followed by the right group, shows the original links in their order, none duplicated and
  none dropped.
\<close>

theorem navbar_centered_split:
  "map anchor_link (children_at [0, 0, 0] (NavbarCentered brand ls None None c isOpen)) =
     map Some (take ((length ls + 1) div 2) ls) \<and>
   map anchor_link (children_at [0, 2, 0] (NavbarCentered brand ls None None c isOpen)) =
     map Some (drop ((length ls + 1) div 2) ls) \<and>
   map anchor_link (children_at [0, 3, 1, 0, 0] (NavbarCentered brand ls None None c isOpen)) =
     map Some ls \<and>
   length (take ((length ls + 1) div 2) ls) = nat \<lceil>real (length ls) / 2\<rceil> \<and>
   length (drop ((length ls + 1) div 2) ls) = nat \<lfloor>real (length ls) / 2\<rfloor> \<and>
   take ((length ls + 1) div 2) ls @ drop ((length ls + 1) div 2) ls = ls"
proof -
  have c: "nat \<lceil>real (length ls) / 2\<rceil> = (length ls + 1) div 2"
    using ceil_half_eq[of "length ls"] by (simp add: ceil_half_def)
  have f: "nat \<lfloor>real (length ls) / 2\<rfloor> = length ls div 2"
    by (rule floor_half_eq)
  have l: "map anchor_link (children_at [0, 0, 0] (NavbarCentered brand ls None None c isOpen)) =
     map Some (take ((length ls + 1) div 2) ls)"
    by (simp only: navbar_left anchor_links_desktop ceil_half_eq)
  have r: "map anchor_link (children_at [0, 2, 0] (NavbarCentered brand ls None None c isOpen)) =
     map Some (drop ((length ls + 1) div 2) ls)"
    by (simp only: navbar_right anchor_links_desktop ceil_half_eq)
  have m: "map anchor_link (children_at [0, 3, 1, 0, 0] (NavbarCentered brand ls None None c isOpen)) =
     map Some ls"
    by (simp only: navbar_mobile anchor_links_mobile)
  have n1: "length (take ((length ls + 1) div 2) ls) = nat \<lceil>real (length ls) / 2\<rceil>"
    unfolding c by simp
  have n2: "length (drop ((length ls + 1) div 2) ls) = nat \<lfloor>real (length ls) / 2\<rfloor>"
    unfolding f by simp
  from l r m n1 n2 show ?thesis
    by simp
qed

section \<open>The carousel index\<close>

lemma carousel_next:
  assumes "i < n"
  shows "carousel_update n Next (Fin (real i)) = Fin (real ((i + 1) mod n))"
proof -
  have "num_add (Fin (real i)) (Fin 1) = Fin (real (i + 1))"
    by simp
  with assms show ?thesis
    by (simp only: carousel_update.simps num_rem_nat)
qed

lemma carousel_previous:
  assumes "i < n"
  shows "carousel_update n Previous (Fin (real i)) = Fin (real ((i + n - 1) mod n))"
proof -
  from assms have "real i - 1 + real n = real (i + n - 1)"
    by (simp add: of_nat_diff)
  then have "num_add (num_sub (Fin (real i)) (Fin 1)) (Fin (real n)) = Fin (real (i + n - 1))"
    by simp
  with assms show ?thesis
    by (simp only: carousel_update.simps num_rem_nat)
qed

lemma value_handlers_simps [simp]:
  "value_handlers (VHandler h) = [h]"
  "value_handlers (VStr x) = []"
  "value_handlers (VNum y) = []"
  "value_handlers (VBool z) = []"
  "value_handlers (VObj kvs) = []"
  "value_handlers (VArr vs) = []"
  "value_handlers VUndefined = []"
  "value_handlers (opt_str s) = []"
  by (simp_all add: value_handlers_def opt_str_def split: option.splits)

lemma value_handlers_presets [simp]:
  "value_handlers viewportOptions = []"
  "value_handlers fadeInUp = []"
  "value_handlers staggerContainer = []"
  "value_handlers staggerItem = []"
  by (simp_all add: viewportOptions_def fadeInUp_def staggerContainer_def staggerItem_def)

lemma dots_handlers:
  "concat (map handlers (map (\<lambda>(index, x). Elem ''button''
      [(''key'', idx index), (''onClick'', VHandler (SetCurrentIndex index)),
       (''className'', VStr (c index)), (''aria-label'', VStr (l index))] []) (enumerate k xs))) =
   map SetCurrentIndex [k..<k + length xs]"
proof -
  have "concat (map handlers (map (\<lambda>(index, x). Elem ''button''
      [(''key'', idx index), (''onClick'', VHandler (SetCurrentIndex index)),
       (''className'', VStr (c index)), (''aria-label'', VStr (l index))] []) (enumerate k xs))) =
     map (\<lambda>p. SetCurrentIndex (fst p)) (enumerate k xs)"
    by (simp add: case_prod_unfold comp_def concat_map_single)
  also have "\<dots> = map SetCurrentIndex (map fst (enumerate k xs))"
    by (simp only: map_map comp_def)
  also have "\<dots> = map SetCurrentIndex [k..<k + length xs]"
    by (simp only: map_fst_enumerate)
  finally show ?thesis .
qed

lemma handlers_and_str: "(\<And>t. handlers (f t) = []) \<Longrightarrow> handlers (and_str s f) = []"
  by (simp add: and_str_def split: option.splits)

lemma carousel_handlers:
  assumes "TestimonialsSectionCarousel b t d ts cur = Inr tree"
  shows "handlers tree =
     (if length ts \<le> 1 then [] else [Previous]) @ map SetCurrentIndex [0..<length ts] @
     (if length ts \<le> 1 then [] else [Next])"
proof -
  from assms obtain ct where "at_index ts cur = Some ct"
    by (auto simp: TestimonialsSectionCarousel_def split: option.splits)
  with assms show ?thesis
    using dots_handlers[of _ _ 0 ts]
    by (clarsimp simp: TestimonialsSectionCarousel_def handlers_and_str)
qed

lemma carousel_render_ok:
  "i < length ts \<Longrightarrow> \<exists>tree. TestimonialsSectionCarousel b t d ts (Fin (real i)) = Inr tree"
  by (simp add: TestimonialsSectionCarousel_def at_index_nat)

lemma carousel_clicks_invariant:
  "i < length ts \<Longrightarrow> carousel_clicks b t d ts (Fin (real i)) as = Some cur \<Longrightarrow>
   \<exists>j<length ts. cur = Fin (real j)"
proof (induction as arbitrary: i)
  case Nil
  then show ?case by auto
next
  case (Cons a as)
  from Cons.prems(1) obtain tree where
    tree: "TestimonialsSectionCarousel b t d ts (Fin (real i)) = Inr tree"
    using carousel_render_ok by blast
  with Cons.prems(2) have a: "a \<in> set (handlers tree)"
    and rest: "carousel_clicks b t d ts (carousel_update (length ts) a (Fin (real i))) as = Some cur"
    by (auto split: if_splits)
  from a tree have "a = Previous \<or> a = Next \<or> (\<exists>k<length ts. a = SetCurrentIndex k)"
    by (auto simp: carousel_handlers split: if_splits)
  then obtain j where "j < length ts"
    and "carousel_update (length ts) a (Fin (real i)) = Fin (real j)"
    using Cons.prems(1) carousel_next[of i "length ts"] carousel_previous[of i "length ts"]
    by (metis carousel_update.simps(3) mod_less_divisor gr_implies_not0 not_gr_zero)
  with rest Cons.IH show ?case
    by metis
qed

lemma carousel_clicks_step:
  assumes "i < length ts" and "1 < length ts"
    and "a = Previous \<or> a = Next \<or> (\<exists>k<length ts. a = SetCurrentIndex k)"
  shows "carousel_clicks b t d ts (Fin (real i)) (a # as) =
     carousel_clicks b t d ts (carousel_update (length ts) a (Fin (real i))) as"
proof -
  from assms(1) obtain tree where
    tree: "TestimonialsSectionCarousel b t d ts (Fin (real i)) = Inr tree"
    using carousel_render_ok by blast
  with assms(2,3) have "a \<in> set (handlers tree)"
    by (auto simp: carousel_handlers)
  with tree show ?thesis
    by simp
qed

text \<open>
  C4.  For every non-empty testimonials list, whatever handlers of the rendered carousel
  the user fires, starting from the initial index 0, the index is a natural number below
  the length of the list.  In every such state the render succeeds and offers the previous
  and next buttons (when there is more than one testimonial) and one dot per testimonial,
  the dot at position \<open>k\<close> setting the index to \<open>k\<close>; next maps \<open>i\<close> to \<open>(i + 1) mod length\<close>
  and previous maps \<open>i\<close> to \<open>(i - 1 + length) mod length\<close>.
\<close>

theorem carousel_index_in_range:
  assumes "testimonials \<noteq> []"
    and "carousel_clicks b t d testimonials (Fin 0) as = Some cur"
  shows "(\<exists>i<length testimonials. cur = Fin (real i)) \<and>
    (\<forall>i<length testimonials.
       carousel_update (length testimonials) Next (Fin (real i)) =
         Fin (real ((i + 1) mod length testimonials)) \<and>
       carousel_update (length testimonials) Previous (Fin (real i)) =
         Fin (real ((i + length testimonials - 1) mod length testimonials)) \<and>
       (\<forall>k. carousel_update (length testimonials) (SetCurrentIndex k) (Fin (real i)) =
         Fin (real k)) \<and>
       (\<exists>tree. TestimonialsSectionCarousel b t d testimonials (Fin (real i)) = Inr tree \<and>
          handlers tree =
            (if length testimonials \<le> 1 then [] else [Previous]) @
            map SetCurrentIndex [0..<length testimonials] @
            (if length testimonials \<le> 1 then [] else [Next])))"
proof -
  from assms(1) have pos: "0 < length testimonials"
    by simp
  from assms(2) have "carousel_clicks b t d testimonials (Fin (real 0)) as = Some cur"
    by simp
  with pos have range: "\<exists>i<length testimonials. cur = Fin (real i)"
    by (rule carousel_clicks_invariant)
  have ops: "carousel_update (length testimonials) Next (Fin (real i)) =
         Fin (real ((i + 1) mod length testimonials)) \<and>
       carousel_update (length testimonials) Previous (Fin (real i)) =
         Fin (real ((i + length testimonials - 1) mod length testimonials)) \<and>
       (\<forall>k. carousel_update (length testimonials) (SetCurrentIndex k) (Fin (real i)) =
         Fin (real k)) \<and>
       (\<exists>tree. TestimonialsSectionCarousel b t d testimonials (Fin (real i)) = Inr tree \<and>
          handlers tree =
            (if length testimonials \<le> 1 then [] else [Previous]) @
            map SetCurrentIndex [0..<length testimonials] @
            (if length testimonials \<le> 1 then [] else [Next]))"
    if "i < length testimonials" for i
    using that carousel_next[OF that] carousel_previous[OF that]
      carousel_render_ok[OF that, of b t d] carousel_handlers[of b t d testimonials "Fin (real i)"]
    by auto
  from range ops show ?thesis
    by blast
qed

theorem carousel_index_in_range_witness:
  "sample_testimonials \<noteq> [] \<and>
   carousel_clicks None (js ''What Our Customers Say'') None sample_testimonials (Fin 0)
     [Next, Next, Next, Previous, SetCurrentIndex 1] = Some (Fin 1) \<and>
   (\<exists>i<length sample_testimonials. Fin 1 = Fin (real i))"
proof -
  have n: "length sample_testimonials = 3"
    by (simp add: sample_testimonials_def)
  then have ne: "sample_testimonials \<noteq> []"
    by auto
  have step: "carousel_clicks None (js ''What Our Customers Say'') None sample_testimonials
       (Fin (real i)) (a # as) =
     carousel_clicks None (js ''What Our Customers Say'') None sample_testimonials
       (carousel_update 3 a (Fin (real i))) as"
    if "i < 3" and "a = Previous \<or> a = Next \<or> (\<exists>k<3. a = SetCurrentIndex k)" for i a as
    using that carousel_clicks_step[of i sample_testimonials a] by (simp only: n)
  have "carousel_clicks None (js ''What Our Customers Say'') None sample_testimonials
       (Fin (real 0)) [Next, Next, Next, Previous, SetCurrentIndex 1] =
     carousel_clicks None (js ''What Our Customers Say'') None sample_testimonials
       (Fin (real 1)) [Next, Next, Previous, SetCurrentIndex 1]"
    using step[of 0 Next] carousel_next[of 0 3] by simp
  also have "\<dots> = carousel_clicks None (js ''What Our Customers Say'') None sample_testimonials
       (Fin (real 2)) [Next, Previous, SetCurrentIndex 1]"
    using step[of 1 Next] carousel_next[of 1 3] by simp
  also have "\<dots> = carousel_clicks None (js ''What Our Customers Say'') None sample_testimonials
       (Fin (real 0)) [Previous, SetCurrentIndex 1]"
    using step[of 2 Next] carousel_next[of 2 3] by simp
  also have "\<dots> = carousel_clicks None (js ''What Our Customers Say'') None sample_testimonials
       (Fin (real 2)) [SetCurrentIndex 1]"
    using step[of 0 Previous] carousel_previous[of 0 3] by simp
  also have "\<dots> = carousel_clicks None (js ''What Our Customers Say'') None sample_testimonials
       (Fin (real 1)) []"
    using step[of 2 "SetCurrentIndex 1"] by simp
  finally have run: "carousel_clicks None (js ''What Our Customers Say'') None
       sample_testimonials (Fin 0) [Next, Next, Next, Previous, SetCurrentIndex 1] = Some (Fin 1)"
    by simp
  from carousel_index_in_range [OF ne run] ne run show ?thesis
    by blast
qed

section \<open>The pricing toggle\<close>

lemma pricing_handlers:
  "handlers (PricingSectionToggle cn b t d tiers y isYearly) = [SetIsYearly (\<not> isYearly)]"
proof -
  have features: "concat (map (handlers \<circ> (\<lambda>(featureIndex, feature).
        Elem ''li''
         [(''key'', idx featureIndex), (''className'', lit ''flex items-start gap-3'')]
         [Elem ''Check'' [(''className'', lit ''size-5 shrink-0 text-primary mt-0.5'')] [],
          Elem ''span'' [(''className'', lit ''text-sm'')] [Txt feature]]))
      fs) = []" for fs :: "(nat \<times> jsstring) list"
    by (induction fs) auto
  have cards: "concat (map (handlers \<circ> f) xs) = []" if "\<And>x. handlers (f x) = []"
    for f :: "nat \<times> PricingTierWithToggle \<Rightarrow> node" and xs
    using that by (induction xs) auto
  show ?thesis
    by (simp add: PricingSectionToggle_def handlers_and_str and_bool_def and_optbool_def
        features cards case_prod_unfold Let_def split: option.splits)
qed

lemma pricing_toggle_row:
  "node_at [0, 1, 3] (PricingSectionToggle cn b t d tiers y isYearly) =
     Some (if isYearly
           then Elem ''Badge'' [(''variant'', lit ''secondary''), (''className'', lit ''ml-2'')]
                  [Txt (case y of None \<Rightarrow> js ''Save 20%'' | Some x \<Rightarrow> x)]
           else Val (VBool False))"
  by (simp add: PricingSectionToggle_def and_bool_def Let_def)

lemma pricing_card:
  assumes "k < length tiers"
  shows "node_at [0, 2, 0, k, 0, 1, 1, 0, 0] (PricingSectionToggle cn b t d tiers y isYearly) =
      Some (Txt (if isYearly then yearlyPrice (tiers ! k) else monthlyPrice (tiers ! k))) \<and>
    node_at [0, 2, 0, k, 0, 1, 1, 2] (PricingSectionToggle cn b t d tiers y isYearly) =
      Some (if isYearly
            then Elem ''div'' [(''className'', lit ''text-xs text-muted-foreground mt-1'')]
                   [Lit ''Billed annually'']
            else Val (VBool False))"
  using assms
  by (simp add: PricingSectionToggle_def and_bool_def Let_def nth_enumerate_eq)

text \<open>
  C5.  The state of the pricing toggle is one boolean.  The rendered section offers a
  single handler, that of the toggle button, and firing it negates the state, so firing it
  in two successive renders restores the state.  For every tier the price shown is
  \<open>yearlyPrice\<close> when the state is yearly and \<open>monthlyPrice\<close> otherwise, and the discount
  badge and the note "Billed annually" are rendered exactly when the state is yearly.
\<close>

theorem pricing_toggle:
  assumes "k < length tiers"
  shows "map (\<lambda>h. pricing_update h isYearly)
       (handlers (PricingSectionToggle cn b t d tiers y isYearly)) = [\<not> isYearly] \<and>
    map (\<lambda>h. pricing_update h (\<not> isYearly))
       (handlers (PricingSectionToggle cn b t d tiers y (\<not> isYearly))) = [isYearly] \<and>
    node_at [0, 2, 0, k, 0, 1, 1, 0, 0] (PricingSectionToggle cn b t d tiers y isYearly) =
      Some (Txt (if isYearly then yearlyPrice (tiers ! k) else monthlyPrice (tiers ! k))) \<and>
    node_at [0, 2, 0, k, 0, 1, 1, 2] (PricingSectionToggle cn b t d tiers y isYearly) =
      Some (if isYearly
            then Elem ''div'' [(''className'', lit ''text-xs text-muted-foreground mt-1'')]
                   [Lit ''Billed annually'']
            else Val (VBool False)) \<and>
    node_at [0, 1, 3] (PricingSectionToggle cn b t d tiers y isYearly) =
      Some (if isYearly
            then Elem ''Badge'' [(''variant'', lit ''secondary''), (''className'', lit ''ml-2'')]
                   [Txt (case y of None \<Rightarrow> js ''Save 20%'' | Some x \<Rightarrow> x)]
            else Val (VBool False))"
  using pricing_card [OF assms, of cn b t d y isYearly]
  by (simp only: pricing_handlers pricing_toggle_row) simp

theorem pricing_toggle_witness:
  "0 < length [\<lparr>tier_name = js ''Pro'', period = js ''month'',
        tier_description = js ''Perfect for professionals'',
        features = [js ''Feature 1'', js ''Feature 2''],
        cta = \<lparr>cta_text = js ''Get Started'', cta_href = js ''/signup''\<rparr>,
        popular = None, monthlyPrice = js ''$29'', yearlyPrice = js ''$24''\<rparr>] \<and>
   node_at [0, 2, 0, 0, 0, 1, 1, 0, 0]
     (PricingSectionToggle concat None (js ''Choose Your Plan'') None
        [\<lparr>tier_name = js ''Pro'', period = js ''month'',
          tier_description = js ''Perfect for professionals'',
          features = [js ''Feature 1'', js ''Feature 2''],
          cta = \<lparr>cta_text = js ''Get Started'', cta_href = js ''/signup''\<rparr>,
          popular = None, monthlyPrice = js ''$29'', yearlyPrice = js ''$24''\<rparr>]
        (Some (js ''Save 20%'')) True) = Some (Lit ''$24'')"
  using pricing_toggle [of 0
      "[\<lparr>tier_name = js ''Pro'', period = js ''month'',
          tier_description = js ''Perfect for professionals'',
          features = [js ''Feature 1'', js ''Feature 2''],
          cta = \<lparr>cta_text = js ''Get Started'', cta_href = js ''/signup''\<rparr>,
          popular = None, monthlyPrice = js ''$29'', yearlyPrice = js ''$24''\<rparr>]"
      True concat None "js ''Choose Your Plan''" None "Some (js ''Save 20%'')"]
  by simp

section \<open>Optional props\<close>



section \<open>Properties of the animation presets\<close>

text \<open>
  C8.  Each of the fifteen exported animation variants is a pair of states whose hidden
  state has opacity 0 and whose visible state has opacity 1; in every visible state the
  offsets \<open>x\<close> and \<open>y\<close>, the rotation and the blur filter, where present, are neutral
  (0, or the text \<open>blur(0px)\<close>) and a scale, where present, is 1.
\<close>

theorem animation_presets_neutral:
  "neutral_preset fadeIn \<and> neutral_preset fadeInUp \<and> neutral_preset fadeInDown \<and>
   neutral_preset fadeInLeft \<and> neutral_preset fadeInRight \<and>
   neutral_preset scaleIn \<and> neutral_preset scaleInUp \<and>
   neutral_preset slideInLeft \<and> neutral_preset slideInRight \<and>
   neutral_preset slideInUp \<and> neutral_preset slideInDown \<and>
   neutral_preset staggerContainer \<and> neutral_preset staggerItem \<and>
   neutral_preset blur \<and> neutral_preset rotate_preset"
  by (simp add: neutral_preset_def fadeIn_def fadeInUp_def fadeInDown_def fadeInLeft_def
      fadeInRight_def scaleIn_def scaleInUp_def slideInLeft_def slideInRight_def
      slideInUp_def slideInDown_def staggerContainer_def staggerItem_def blur_def
      rotate_preset_def js_def)

end
